theory Spec2Isabelle
  imports Complex_Main "HOL-Library.Multiset"
begin

section \<open>Tensors, modules and the gradient engine\<close>

text \<open>
  The trainer of \<^verbatim>\<open>svrg.py\<close> only ever looks at a model through the flattened
  concatenation of its parameters (\<^verbatim>\<open>torch.cat([x.view(-1) for x in model.parameters()])\<close>),
  so a tensor is a list of numbers and a module carries one flat parameter vector and the
  gradient accumulated for it. The floating-point entries of tensors, and the losses, are
  idealised as reals. The tensor
  operations of the framework raise on operands of different shapes; the framework keeps
  every gradient in the shape of its parameter, and the operations below are only meant for
  operands of one length (\<open>map2\<close> would cut the longer one).
\<close>

type_synonym tensor = "real list"

definition tadd :: "tensor \<Rightarrow> tensor \<Rightarrow> tensor" where
  "tadd xs ys = map2 (+) xs ys"

definition tsub :: "tensor \<Rightarrow> tensor \<Rightarrow> tensor" where
  "tsub xs ys = map2 (-) xs ys"

definition tscale :: "real \<Rightarrow> tensor \<Rightarrow> tensor" where
  "tscale c xs = map ((*) c) xs"

definition dot :: "tensor \<Rightarrow> tensor \<Rightarrow> real" where
  "dot xs ys = sum_list (map2 (*) xs ys)"

definition zeros :: "nat \<Rightarrow> tensor" where
  "zeros n = replicate n 0"

record nn_module =
  weights :: tensor
  grad :: tensor

definition new_module :: "tensor \<Rightarrow> nn_module" where
  "new_module w = \<lparr>weights = w, grad = zeros (length w)\<rparr>"

definition zero_grad :: "nn_module \<Rightarrow> nn_module" where
  "zero_grad m = m\<lparr>grad := zeros (length (weights m))\<rparr>"

definition state_dict :: "nn_module \<Rightarrow> tensor" where
  "state_dict m = weights m"

definition load_state_dict :: "nn_module \<Rightarrow> tensor \<Rightarrow> nn_module" where
  "load_state_dict m sd = m\<lparr>weights := sd\<rparr>"

text \<open>
  \<^verbatim>\<open>torch.optim.SGD(params, lr, weight_decay).step()\<close> without momentum:
  \<^verbatim>\<open>p -= lr * (p.grad + weight_decay * p)\<close>.
\<close>

definition sgd_step :: "real \<Rightarrow> real \<Rightarrow> nn_module \<Rightarrow> nn_module" where
  "sgd_step lr wd m =
     m\<lparr>weights := map2 (\<lambda>p g. p - lr * (g + wd * p)) (weights m) (grad m)\<rparr>"

text \<open>
  \<^verbatim>\<open>SVRGTrainer.__init__\<close> stores \<^verbatim>\<open>create_model\<close> and \<^verbatim>\<open>loss_fn\<close>. The model's forward
  pass, the loss function and automatic differentiation are external: \<open>loss_at b w\<close> is the
  value of \<^verbatim>\<open>loss_fn(model(data), label)\<close> on the batch \<open>b\<close> when the parameters are \<open>w\<close>,
  and \<open>grad_at b w\<close> is what \<^verbatim>\<open>backward()\<close> of that loss adds to the parameters' gradient.
  \<open>create_model k\<close> is the initial parameter vector of the \<open>k\<close>-th module created.
\<close>

record 'e svrg_trainer =
  create_model :: "nat \<Rightarrow> tensor"
  loss_at :: "'e list \<Rightarrow> tensor \<Rightarrow> real"
  grad_at :: "'e list \<Rightarrow> tensor \<Rightarrow> tensor"

text \<open>
  The part of the autograd graph the trainer builds on top of the model's loss (lines 90-99):
  the loss node of a batch, the dot product of a detached (constant) tensor with
  \<^verbatim>\<open>model_weights\<close>, and subtraction.
\<close>

datatype 'e expr =
    Loss "'e list"
  | Dot_weights tensor
  | Sub "'e expr" "'e expr"

fun item :: "'e svrg_trainer \<Rightarrow> tensor \<Rightarrow> 'e expr \<Rightarrow> real" where
  "item T w (Loss b) = loss_at T b w"
| "item T w (Dot_weights c) = dot c w"
| "item T w (Sub a b) = item T w a - item T w b"

fun expr_grad :: "'e svrg_trainer \<Rightarrow> tensor \<Rightarrow> 'e expr \<Rightarrow> tensor" where
  "expr_grad T w (Loss b) = grad_at T b w"
| "expr_grad T w (Dot_weights c) = c"
| "expr_grad T w (Sub a b) = tsub (expr_grad T w a) (expr_grad T w b)"

text \<open>\<^verbatim>\<open>e.backward()\<close>: the gradient of \<open>e\<close> is added to the module's gradient.\<close>

definition backward :: "'e svrg_trainer \<Rightarrow> 'e expr \<Rightarrow> nn_module \<Rightarrow> nn_module" where
  "backward T e m = m\<lparr>grad := tadd (grad m) (expr_grad T (weights m) e)\<rparr>"

text \<open>Lines 97-99: \<^verbatim>\<open>model_loss - torch.dot((target_model_grad - mu).detach(), model_weights)\<close>.\<close>

definition aux_loss :: "'e list \<Rightarrow> tensor \<Rightarrow> tensor \<Rightarrow> 'e expr" where
  "aux_loss b target_model_grad mu = Sub (Loss b) (Dot_weights (tsub target_model_grad mu))"

section \<open>The data loader\<close>

text \<open>
  \<^verbatim>\<open>train_loader\<close> is iterated many times, and a shuffling loader yields other batches each
  time: \<open>epoch_batches L k\<close> is the list of batches of the \<open>k\<close>-th iteration over the loader
  (a batch is the list of its examples, \<^verbatim>\<open>len(data)\<close> its length), \<open>batch_count L\<close> is
  \<^verbatim>\<open>len(train_loader)\<close> and \<open>dataset L\<close> is \<^verbatim>\<open>train_loader.dataset\<close>.
\<close>

record 'e data_loader =
  dataset :: "'e list"
  batch_count :: nat
  epoch_batches :: "nat \<Rightarrow> 'e list list"

text \<open>
  A loader as \<^verbatim>\<open>torch.utils.data.DataLoader\<close> builds it (without \<^verbatim>\<open>drop_last\<close>): every
  iteration yields \<^verbatim>\<open>len(train_loader)\<close> batches, none of them empty, that together hold
  every example of the dataset once.
\<close>

definition wf_loader :: "'e data_loader \<Rightarrow> bool" where
  "wf_loader L \<longleftrightarrow>
     (\<forall>k. length (epoch_batches L k) = batch_count L
        \<and> [] \<notin> set (epoch_batches L k)
        \<and> mset (concat (epoch_batches L k)) = mset (dataset L))"

section \<open>Full gradient (utils)\<close>

text \<open>
  Modelled from the spec: \<^verbatim>\<open>utils.calculate_full_gradient\<close> is not among the sources; this
  is its pass over the batches. Spec 4.1: iterate the full dataset in batches; for each batch
  compute the gradient, accumulate a running sum of gradient times batch size and a running
  total example count.
\<close>

definition full_gradient_sums :: "'e svrg_trainer \<Rightarrow> tensor \<Rightarrow> 'e list list \<Rightarrow> tensor \<times> nat" where
  "full_gradient_sums T w batches =
     fold (\<lambda>b (acc, n). (tadd acc (tscale (real (length b)) (grad_at T b w)), n + length b))
       batches (zeros (length w), 0)"

text \<open>
  Modelled from the spec: \<^verbatim>\<open>utils.calculate_full_gradient\<close> is not among the sources. Spec
  4.1: after the pass divide the accumulated gradient by the total example count; the
  accumulated gradients of the module are cleared before and after use. The result on a
  dataset without examples is not specified (here: division by zero of the reals).
\<close>

definition calculate_full_gradient ::
    "'e svrg_trainer \<Rightarrow> 'e list list \<Rightarrow> nn_module \<Rightarrow> tensor \<times> nn_module" where
  "calculate_full_gradient T batches m =
     (let m0 = zero_grad m;
          (acc, n) = full_gradient_sums T (weights m0) batches
      in (tscale (1 / real n) acc, zero_grad m0))"

text \<open>
  Modelled from the spec: \<^verbatim>\<open>utils.calculate_full_gradient_norm\<close> is not among the sources.
  Spec 4.1: the gradient norm is the Euclidean norm of the flattened gradient vector.
\<close>

definition calculate_full_gradient_norm ::
    "'e svrg_trainer \<Rightarrow> 'e list list \<Rightarrow> nn_module \<Rightarrow> real \<times> nn_module" where
  "calculate_full_gradient_norm T batches m =
     (let (g, m') = calculate_full_gradient T batches m in (sqrt (dot g g), m'))"

section \<open>Python errors and floats\<close>

text \<open>The exceptions that \<^verbatim>\<open>train\<close> can raise on its own.\<close>

datatype error = ZeroDivisionError | IndexError | OverflowError | ValueError

text \<open>
  A Python \<^verbatim>\<open>float\<close> is an IEEE 754 double: \<open>Finite m e\<close> is the number \<open>m * 2 ^ e\<close>,
  \<open>Infinity s\<close> is the infinity of sign \<open>s\<close> (\<open>True\<close> for negative) and \<open>NaN\<close> is
  not-a-number. The sign of a zero is left out: \<^verbatim>\<open>int\<close> does not see it. The doubles are
  the values that satisfy \<open>is_double\<close>.
\<close>

datatype py_float = Finite int int | Infinity bool | NaN

definition is_double :: "py_float \<Rightarrow> bool" where
  "is_double x =
     (case x of
        Finite m e \<Rightarrow> \<bar>m\<bar> < 2 ^ 53 \<and> - 1074 \<le> e \<and> e \<le> 971
      | Infinity s \<Rightarrow> True
      | NaN \<Rightarrow> True)"

text \<open>\<^verbatim>\<open>int.bit_length()\<close>: the number of binary digits of a natural number.\<close>

fun bit_length :: "nat \<Rightarrow> nat" where
  "bit_length n = (if n = 0 then 0 else Suc (bit_length (n div 2)))"

declare bit_length.simps [simp del]

text \<open>
  Rounding of the exact number \<open>m * 2 ^ e\<close> to the nearest double, ties to the even
  mantissa: the mantissa keeps at most 53 binary digits and the exponent stays at or above
  \<open>-1074\<close>; a result of magnitude \<open>2 ^ 1024\<close> or more overflows to infinity.
\<close>

definition finite_or_inf :: "int \<Rightarrow> int \<Rightarrow> py_float" where
  "finite_or_inf m e =
     (if int (bit_length (nat \<bar>m\<bar>)) + e > 1024 then Infinity (m < 0) else Finite m e)"

definition round_to_double :: "int \<Rightarrow> int \<Rightarrow> py_float" where
  "round_to_double m e =
     (let k = max (int (bit_length (nat \<bar>m\<bar>)) - 53) (- 1074 - e)
      in if k \<le> 0 then finite_or_inf m e
         else
           let d = 2 ^ nat k;
               q = \<bar>m\<bar> div d;
               r = \<bar>m\<bar> mod d;
               q' = (if 2 * r > d \<or> (2 * r = d \<and> odd q) then q + 1 else q)
           in finite_or_inf (sgn m * q') (e + k))"

text \<open>The product of two floats, \<^verbatim>\<open>x * y\<close>.\<close>

definition float_mul :: "py_float \<Rightarrow> py_float \<Rightarrow> py_float" where
  "float_mul x y =
     (case (x, y) of
        (Finite a ea, Finite b eb) \<Rightarrow> round_to_double (a * b) (ea + eb)
      | (Finite a ea, Infinity s) \<Rightarrow> (if a = 0 then NaN else Infinity (s \<noteq> (a < 0)))
      | (Infinity s, Finite b eb) \<Rightarrow> (if b = 0 then NaN else Infinity (s \<noteq> (b < 0)))
      | (Infinity s, Infinity t) \<Rightarrow> Infinity (s \<noteq> t)
      | _ \<Rightarrow> NaN)"

text \<open>
  The conversion of an \<^verbatim>\<open>int\<close> operand to a float: the nearest double, and an OverflowError
  when the integer is too large for a double.
\<close>

definition float_of_int :: "int \<Rightarrow> error + py_float" where
  "float_of_int n =
     (case round_to_double n 0 of
        Infinity s \<Rightarrow> Inl OverflowError
      | x \<Rightarrow> Inr x)"

text \<open>\<^verbatim>\<open>n * x\<close> for an \<^verbatim>\<open>int\<close> \<open>n\<close> and a \<^verbatim>\<open>float\<close> \<open>x\<close>.\<close>

definition int_times_float :: "int \<Rightarrow> py_float \<Rightarrow> error + py_float" where
  "int_times_float n x =
     (case float_of_int n of Inl err \<Rightarrow> Inl err | Inr y \<Rightarrow> Inr (float_mul y x))"

text \<open>
  \<^verbatim>\<open>int(x)\<close> on a float: truncation towards zero, an OverflowError on an infinity and a
  ValueError on not-a-number.
\<close>

definition py_int :: "py_float \<Rightarrow> error + int" where
  "py_int x =
     (case x of
        Finite m e \<Rightarrow>
          Inr (if e \<ge> 0 then m * 2 ^ nat e else sgn m * (\<bar>m\<bar> div 2 ^ nat (- e)))
      | Infinity s \<Rightarrow> Inl OverflowError
      | NaN \<Rightarrow> Inl ValueError)"

section \<open>SVRGTrainer.train\<close>

datatype metric =
    Warmup_record int real real
  | Inner_record int int real real

record train_args =
  num_warmup_epochs :: int
  num_outer_epochs :: int
  num_inner_epochs :: int
  inner_epoch_fraction :: "py_float option"
  warmup_learning_rate :: real
  learning_rate :: real
  weight_decay :: real
  choose_random_iterate :: bool

text \<open>
  The local variables of \<^verbatim>\<open>train\<close> that live across statements, and two counters that
  stand for the state of the outside world: how many iterations over the loader have been
  started, and how many times \<^verbatim>\<open>random.choice\<close> has been called.
\<close>

record train_state =
  metrics :: "metric list"
  model :: nn_module
  target_model :: nn_module
  warmup_loss :: real
  train_loss :: real
  examples_seen :: nat
  model_state_dicts :: "tensor list"
  passes :: nat
  draws :: nat

text \<open>Lines 26-29.\<close>

definition init_state :: "'e svrg_trainer \<Rightarrow> train_state" where
  "init_state T =
     \<lparr>metrics = [], model = new_module (create_model T 0),
      target_model = new_module (create_model T 1),
      warmup_loss = 0, train_loss = 0, examples_seen = 0, model_state_dicts = [],
      passes = 0, draws = 0\<rparr>"

text \<open>A \<^verbatim>\<open>for\<close> loop whose body may raise: the first error ends the loop.\<close>

fun for_each :: "('i \<Rightarrow> 's \<Rightarrow> error + 's) \<Rightarrow> 'i list \<Rightarrow> 's \<Rightarrow> error + 's" where
  "for_each body [] s = Inr s"
| "for_each body (i # is) s =
     (case body i s of Inl e \<Rightarrow> Inl e | Inr s' \<Rightarrow> for_each body is s')"

text \<open>Lines 39-45, the body of the warmup loop over the batches.\<close>

definition warmup_batch :: "'e svrg_trainer \<Rightarrow> train_args \<Rightarrow> 'e list \<Rightarrow> train_state \<Rightarrow> train_state" where
  "warmup_batch T A b s =
     (let t1 = zero_grad (target_model s);
          loss = Loss b;
          t2 = backward T loss t1;
          t3 = sgd_step (warmup_learning_rate A) (weight_decay A) t2
      in s\<lparr>target_model := t3,
            warmup_loss := warmup_loss s + item T (weights t1) loss * real (length b)\<rparr>)"

text \<open>
  Lines 36-53, one warmup epoch. The clock and the printed throughput are left out
  (line 50 divides by the elapsed time, which the model takes to be positive).
\<close>

definition warmup_epoch ::
    "'e svrg_trainer \<Rightarrow> 'e data_loader \<Rightarrow> train_args \<Rightarrow> int \<Rightarrow> train_state \<Rightarrow> error + train_state" where
  "warmup_epoch T L A warmup_epoch_no s =
     (let s1 = fold (warmup_batch T A) (epoch_batches L (passes s)) (s\<lparr>warmup_loss := 0\<rparr>);
          s2 = s1\<lparr>passes := passes s1 + 1\<rparr>
      in if length (dataset L) = 0 then Inl ZeroDivisionError
         else
           let avg_warmup_loss = warmup_loss s2 / real (length (dataset L));
               (model_grad_norm, t) =
                  calculate_full_gradient_norm T (epoch_batches L (passes s2)) (target_model s2)
           in Inr (s2\<lparr>target_model := t, passes := passes s2 + 1,
                      metrics := metrics s2 @
                        [Warmup_record warmup_epoch_no avg_warmup_loss model_grad_norm]\<rparr>))"

text \<open>Lines 80-109, the body of the inner loop up to the truncation check.\<close>

definition inner_batch ::
    "'e svrg_trainer \<Rightarrow> train_args \<Rightarrow> tensor \<Rightarrow> 'e list \<Rightarrow> train_state \<Rightarrow> train_state" where
  "inner_batch T A mu b s =
     (let m1 = zero_grad (model s);
          t1 = zero_grad (target_model s);
          t2 = backward T (Loss b) t1;
          target_model_grad = grad t2;
          model_loss = Loss b;
          m2 = backward T (aux_loss b target_model_grad mu) m1;
          m3 = sgd_step (learning_rate A) (weight_decay A) m2
      in s\<lparr>model := m3, target_model := t2,
            train_loss := train_loss s + item T (weights m1) model_loss * real (length b),
            examples_seen := examples_seen s + length b,
            model_state_dicts := model_state_dicts s @ [state_dict m3]\<rparr>)"

text \<open>
  Lines 78-113: \<^verbatim>\<open>for batch_idx, batch in enumerate(train_loader)\<close> with the
  \<^verbatim>\<open>break\<close> of lines 111-113 after the batch has been processed.
\<close>

fun inner_batches_loop ::
    "'e svrg_trainer \<Rightarrow> train_args \<Rightarrow> tensor \<Rightarrow> int \<Rightarrow> nat \<Rightarrow> 'e list list \<Rightarrow> train_state \<Rightarrow> train_state" where
  "inner_batches_loop T A mu inner_batches batch_idx [] s = s"
| "inner_batches_loop T A mu inner_batches batch_idx (b # bs) s =
     (let s' = inner_batch T A mu b s;
          batch_num = batch_idx + 1
      in if int batch_num \<ge> inner_batches then s'
         else inner_batches_loop T A mu inner_batches (batch_idx + 1) bs s')"

text \<open>
  Lines 71-73: \<^verbatim>\<open>len(train_loader)\<close>, or \<^verbatim>\<open>int(len(train_loader) * inner_epoch_fraction)\<close>
  in float arithmetic when the fraction is given; the conversion to \<^verbatim>\<open>int\<close> can raise.
\<close>

definition inner_batches_of :: "'e data_loader \<Rightarrow> train_args \<Rightarrow> error + int" where
  "inner_batches_of L A =
     (case inner_epoch_fraction A of
        None \<Rightarrow> Inr (int (batch_count L))
      | Some fraction \<Rightarrow>
          (case int_times_float (int (batch_count L)) fraction of
             Inl err \<Rightarrow> Inl err
           | Inr product \<Rightarrow> py_int product))"

text \<open>Lines 75-122, one inner sub-epoch (clock and printing left out).\<close>

definition sub_epoch ::
    "'e svrg_trainer \<Rightarrow> 'e data_loader \<Rightarrow> train_args \<Rightarrow> tensor \<Rightarrow> int \<Rightarrow> int \<Rightarrow> int
       \<Rightarrow> train_state \<Rightarrow> error + train_state" where
  "sub_epoch T L A mu inner_batches epoch sub_epoch_no s =
     (let s1 = inner_batches_loop T A mu inner_batches 0 (epoch_batches L (passes s))
                 (s\<lparr>train_loss := 0, examples_seen := 0\<rparr>);
          s2 = s1\<lparr>passes := passes s1 + 1\<rparr>
      in if examples_seen s2 = 0 then Inl ZeroDivisionError
         else
           let avg_train_loss = train_loss s2 / real (examples_seen s2);
               (model_grad_norm, m) =
                  calculate_full_gradient_norm T (epoch_batches L (passes s2)) (model s2)
           in Inr (s2\<lparr>model := m, passes := passes s2 + 1,
                      metrics := metrics s2 @
                        [Inner_record epoch sub_epoch_no avg_train_loss model_grad_norm]\<rparr>))"

text \<open>
  \<^verbatim>\<open>random.choice(seq)\<close> is \<^verbatim>\<open>seq[randbelow(len(seq))]\<close> and raises IndexError on an empty
  sequence; \<open>randbelow\<close> is the generator's draw, below its argument.
\<close>

definition random_choice :: "(nat \<Rightarrow> nat) \<Rightarrow> 'a list \<Rightarrow> error + 'a" where
  "random_choice randbelow seq =
     (if seq = [] then Inl IndexError
      else let i = randbelow (length seq)
           in if i < length seq then Inr (seq ! i) else Inl IndexError)"

text \<open>\<^verbatim>\<open>seq[-1]\<close>.\<close>

definition last_item :: "'a list \<Rightarrow> error + 'a" where
  "last_item seq = (if seq = [] then Inl IndexError else Inr (last seq))"

text \<open>Lines 127-131.\<close>

definition select_next_snapshot ::
    "train_args \<Rightarrow> (nat \<Rightarrow> nat \<Rightarrow> nat) \<Rightarrow> train_state \<Rightarrow> error + train_state" where
  "select_next_snapshot A randbelow s =
     (if choose_random_iterate A then
        (case random_choice (randbelow (draws s)) (model_state_dicts s) of
           Inl e \<Rightarrow> Inl e
         | Inr new_target_state_dict \<Rightarrow>
             Inr (s\<lparr>target_model := load_state_dict (target_model s) new_target_state_dict,
                    draws := draws s + 1\<rparr>))
      else
        (case last_item (model_state_dicts s) of
           Inl e \<Rightarrow> Inl e
         | Inr new_target_state_dict \<Rightarrow>
             Inr (s\<lparr>target_model := load_state_dict (target_model s) new_target_state_dict\<rparr>)))"

text \<open>Lines 59-64: the full gradient of the target model, over one iteration of the loader.\<close>

definition snapshot_gradient ::
    "'e svrg_trainer \<Rightarrow> 'e data_loader \<Rightarrow> train_state \<Rightarrow> tensor \<times> train_state" where
  "snapshot_gradient T L s =
     (let (mu, t) = calculate_full_gradient T (epoch_batches L (passes s)) (target_model s)
      in (mu, s\<lparr>target_model := t, passes := passes s + 1\<rparr>))"

text \<open>Lines 66-70: the working model is reset to the target model.\<close>

definition reset_working_model :: "train_state \<Rightarrow> train_state" where
  "reset_working_model s =
     s\<lparr>model := load_state_dict (model s) (state_dict (target_model s)),
       model_state_dicts := []\<rparr>"

text \<open>Lines 71-125: the number of batches of a sub-epoch, and the loop over the inner sub-epochs.\<close>

definition inner_epochs ::
    "'e svrg_trainer \<Rightarrow> 'e data_loader \<Rightarrow> train_args \<Rightarrow> tensor \<Rightarrow> int \<Rightarrow> train_state
       \<Rightarrow> error + train_state" where
  "inner_epochs T L A mu epoch s =
     (case inner_batches_of L A of
        Inl err \<Rightarrow> Inl err
      | Inr inner_batches \<Rightarrow>
          for_each (sub_epoch T L A mu inner_batches epoch) [1..num_inner_epochs A] s)"

text \<open>Lines 58-131, one outer epoch.\<close>

definition outer_epoch ::
    "'e svrg_trainer \<Rightarrow> 'e data_loader \<Rightarrow> train_args \<Rightarrow> (nat \<Rightarrow> nat \<Rightarrow> nat) \<Rightarrow> int
       \<Rightarrow> train_state \<Rightarrow> error + train_state" where
  "outer_epoch T L A randbelow epoch s =
     (let (mu, s1) = snapshot_gradient T L s;
          s2 = reset_working_model s1
      in case inner_epochs T L A mu epoch s2 of
           Inl e \<Rightarrow> Inl e
         | Inr s3 \<Rightarrow> select_next_snapshot A randbelow s3)"

text \<open>Lines 35-55: the warmup loop; lines 57-131: the outer loop.\<close>

definition warmup ::
    "'e svrg_trainer \<Rightarrow> 'e data_loader \<Rightarrow> train_args \<Rightarrow> train_state \<Rightarrow> error + train_state" where
  "warmup T L A s = for_each (warmup_epoch T L A) [1..num_warmup_epochs A] s"

definition outer_epochs ::
    "'e svrg_trainer \<Rightarrow> 'e data_loader \<Rightarrow> train_args \<Rightarrow> (nat \<Rightarrow> nat \<Rightarrow> nat) \<Rightarrow> train_state
       \<Rightarrow> error + train_state" where
  "outer_epochs T L A randbelow s =
     for_each (outer_epoch T L A randbelow) [1..num_outer_epochs A] s"

definition train_run ::
    "'e svrg_trainer \<Rightarrow> 'e data_loader \<Rightarrow> train_args \<Rightarrow> (nat \<Rightarrow> nat \<Rightarrow> nat) \<Rightarrow> error + train_state" where
  "train_run T L A randbelow =
     (case warmup T L A (init_state T) of
        Inl e \<Rightarrow> Inl e
      | Inr s \<Rightarrow> outer_epochs T L A randbelow s)"

text \<open>\<^verbatim>\<open>train\<close> returns the metrics (line 132).\<close>

definition train ::
    "'e svrg_trainer \<Rightarrow> 'e data_loader \<Rightarrow> train_args \<Rightarrow> (nat \<Rightarrow> nat \<Rightarrow> nat) \<Rightarrow> error + metric list" where
  "train T L A randbelow =
     (case train_run T L A randbelow of Inl e \<Rightarrow> Inl e | Inr s \<Rightarrow> Inr (metrics s))"

section \<open>The average of the per-example gradients\<close>

text \<open>
  The spec's words for what the full gradient is (4.1): the average of the per-example
  gradients over the whole dataset. The gradient of one example is the gradient of the batch
  that holds it alone. \<open>tsum n\<close> adds up tensors of length \<open>n\<close>.
\<close>

definition tsum :: "nat \<Rightarrow> tensor list \<Rightarrow> tensor" where
  "tsum n xs = fold (\<lambda>x acc. tadd acc x) xs (zeros n)"

definition average_example_gradient :: "'e svrg_trainer \<Rightarrow> tensor \<Rightarrow> 'e list \<Rightarrow> tensor" where
  "average_example_gradient T w examples =
     tscale (1 / real (length examples))
       (tsum (length w) (map (\<lambda>e. grad_at T [e] w) examples))"

section \<open>Metric records by kind\<close>

text \<open>What a metric record is about: its keys without the measured values.\<close>

datatype record_kind = Warmup_kind int | Inner_kind int int

fun kind_of :: "metric \<Rightarrow> record_kind" where
  "kind_of (Warmup_record e l g) = Warmup_kind e"
| "kind_of (Inner_record e k l g) = Inner_kind e k"

definition expected_kinds :: "train_args \<Rightarrow> record_kind list" where
  "expected_kinds A =
     map Warmup_kind [1..num_warmup_epochs A] @
     concat (map (\<lambda>epoch. map (Inner_kind epoch) [1..num_inner_epochs A]) [1..num_outer_epochs A])"

section \<open>A small run\<close>

text \<open>
  The end-to-end scenario of the spec: examples are numbers \<open>x\<close>, the model has one scalar
  parameter \<open>w\<close> starting at 2, the loss of an example is \<open>w * x\<close> and the loss of a batch is
  the mean over its examples, so the gradient of a batch is the mean of its \<open>x\<close>.
\<close>

definition demo_trainer :: "real svrg_trainer" where
  "demo_trainer =
     \<lparr>create_model = (\<lambda>k. [2]),
      loss_at = (\<lambda>b w. (w ! 0) * (sum_list b / real (length b))),
      grad_at = (\<lambda>b w. [sum_list b / real (length b)])\<rparr>"

definition demo_loader :: "real data_loader" where
  "demo_loader = \<lparr>dataset = [1, 3], batch_count = 1, epoch_batches = (\<lambda>k. [[1, 3]])\<rparr>"

definition demo_loader3 :: "real data_loader" where
  "demo_loader3 = \<lparr>dataset = [1, 3, 5], batch_count = 3, epoch_batches = (\<lambda>k. [[1], [3], [5]])\<rparr>"

text \<open>A loader of three examples in two batches that yields other batches every second time.\<close>

definition shuffling_loader :: "real data_loader" where
  "shuffling_loader =
     \<lparr>dataset = [1, 3, 5], batch_count = 2,
      epoch_batches = (\<lambda>k. if even k then [[1, 3], [5]] else [[5, 1], [3]])\<rparr>"

text \<open>Ten batches of one example each.\<close>

definition ten_batch_loader :: "real data_loader" where
  "ten_batch_loader =
     \<lparr>dataset = replicate 10 1, batch_count = 10, epoch_batches = (\<lambda>k. replicate 10 [1])\<rparr>"

definition empty_loader :: "real data_loader" where
  "empty_loader = \<lparr>dataset = [], batch_count = 0, epoch_batches = (\<lambda>k. [])\<rparr>"

definition demo_args :: train_args where
  "demo_args =
     \<lparr>num_warmup_epochs = 1, num_outer_epochs = 1, num_inner_epochs = 1,
      inner_epoch_fraction = None, warmup_learning_rate = 1 / 10, learning_rate = 1 / 10,
      weight_decay = 0, choose_random_iterate = False\<rparr>"

text \<open>The doubles that the literals \<^verbatim>\<open>0.1\<close> and \<^verbatim>\<open>0.7\<close> denote.\<close>

definition one_tenth :: py_float where
  "one_tenth = Finite 7205759403792794 (- 56)"

definition seven_tenths :: py_float where
  "seven_tenths = Finite 6305039478318694 (- 53)"

definition fraction_args :: train_args where
  "fraction_args =
     demo_args\<lparr>num_warmup_epochs := 0, num_inner_epochs := 2,
               inner_epoch_fraction := Some one_tenth\<rparr>"

definition rounding_args :: train_args where
  "rounding_args =
     demo_args\<lparr>num_warmup_epochs := 0, num_inner_epochs := 2,
               inner_epoch_fraction := Some seven_tenths\<rparr>"

definition infinite_fraction_args :: train_args where
  "infinite_fraction_args =
     demo_args\<lparr>num_warmup_epochs := 0, inner_epoch_fraction := Some (Infinity False)\<rparr>"

definition no_inner_args :: train_args where
  "no_inner_args = demo_args\<lparr>num_inner_epochs := 0\<rparr>"

definition no_warmup_args :: train_args where
  "no_warmup_args = demo_args\<lparr>num_warmup_epochs := 0\<rparr>"

definition two_by_two_args :: train_args where
  "two_by_two_args =
     demo_args\<lparr>num_warmup_epochs := 2, num_outer_epochs := 2, num_inner_epochs := 2\<rparr>"

definition warmup_only_args :: train_args where
  "warmup_only_args = demo_args\<lparr>num_warmup_epochs := 2, num_outer_epochs := 0\<rparr>"

definition last_iterate_args :: train_args where
  "last_iterate_args = demo_args\<lparr>num_warmup_epochs := 0, num_inner_epochs := 2\<rparr>"

definition random_iterate_args :: train_args where
  "random_iterate_args =
     demo_args\<lparr>num_warmup_epochs := 0, num_inner_epochs := 2, choose_random_iterate := True\<rparr>"

definition demo_randbelow :: "nat \<Rightarrow> nat \<Rightarrow> nat" where
  "demo_randbelow k n = 0"

section \<open>Auxiliary facts\<close>

lemmas train_defs =
  train_def train_run_def warmup_def outer_epochs_def outer_epoch_def inner_epochs_def
  reset_working_model_def snapshot_gradient_def select_next_snapshot_def last_item_def
  random_choice_def sub_epoch_def inner_batches_of_def inner_batch_def
  warmup_epoch_def warmup_batch_def init_state_def calculate_full_gradient_norm_def
  calculate_full_gradient_def full_gradient_sums_def aux_loss_def backward_def sgd_step_def
  load_state_dict_def state_dict_def zero_grad_def new_module_def zeros_def dot_def
  tscale_def tsub_def tadd_def Let_def upto.simps

lemmas float_defs =
  int_times_float_def py_int_def float_of_int_def float_mul_def round_to_double_def
  finite_or_inf_def bit_length.simps

lemmas demo_defs =
  demo_trainer_def demo_loader_def demo_loader3_def empty_loader_def demo_args_def fraction_args_def
  one_tenth_def seven_tenths_def rounding_args_def infinite_fraction_args_def
  no_inner_args_def no_warmup_args_def two_by_two_args_def warmup_only_args_def
  last_iterate_args_def random_iterate_args_def
  demo_randbelow_def

lemma for_each_append:
  "for_each body (xs @ ys) s =
     (case for_each body xs s of Inl e \<Rightarrow> Inl e | Inr s' \<Rightarrow> for_each body ys s')"
  by (induction xs arbitrary: s) (auto split: sum.splits)


lemma weights_zero_grad [simp]: "weights (zero_grad m) = weights m"
  by (simp add: zero_grad_def)

lemma grad_sgd_step [simp]: "grad (sgd_step lr wd m) = grad m"
  by (simp add: sgd_step_def)

lemma weights_backward [simp]: "weights (backward T e m) = weights m"
  by (simp add: backward_def)

lemma weights_load_state_dict [simp]: "weights (load_state_dict m sd) = sd"
  by (simp add: load_state_dict_def)

lemma calculate_full_gradient_weights [simp]:
  "weights (snd (calculate_full_gradient T bs m)) = weights m"
  by (simp add: calculate_full_gradient_def Let_def split: prod.splits)

lemma calculate_full_gradient_norm_weights [simp]:
  "weights (snd (calculate_full_gradient_norm T bs m)) = weights m"
  by (simp add: calculate_full_gradient_norm_def split: prod.splits)
   (metis calculate_full_gradient_weights snd_conv)

lemma inner_batch_fields [simp]:
  "metrics (inner_batch T A mu b s) = metrics s"
  "passes (inner_batch T A mu b s) = passes s"
  "draws (inner_batch T A mu b s) = draws s"
  "examples_seen (inner_batch T A mu b s) = examples_seen s + length b"
  "weights (target_model (inner_batch T A mu b s)) = weights (target_model s)"
  "length (model_state_dicts (inner_batch T A mu b s)) = Suc (length (model_state_dicts s))"
  by (simp_all add: inner_batch_def Let_def)

lemma fold_inner_batch_fields [simp]:
  "metrics (fold (inner_batch T A mu) bs s) = metrics s"
  "passes (fold (inner_batch T A mu) bs s) = passes s"
  "draws (fold (inner_batch T A mu) bs s) = draws s"
  "examples_seen (fold (inner_batch T A mu) bs s) = examples_seen s + length (concat bs)"
  "weights (target_model (fold (inner_batch T A mu) bs s)) = weights (target_model s)"
  "length (model_state_dicts (fold (inner_batch T A mu) bs s)) = length (model_state_dicts s) + length bs"
  by (induction bs arbitrary: s; simp)+

lemma inner_batches_loop_fold:
  "inner_batches_loop T A mu ib idx bs s =
     fold (inner_batch T A mu) (take (max 1 (nat (ib - int idx))) bs) s"
proof (induction bs arbitrary: idx s)
  case Nil
  show ?case by simp
next
  case (Cons b bs)
  show ?case
  proof (cases "ib \<le> int (idx + 1)")
    case True
    then have "max 1 (nat (ib - int idx)) = 1" by simp
    with True show ?thesis by (simp add: Let_def)
  next
    case False
    then have "max 1 (nat (ib - int idx)) = Suc (max 1 (nat (ib - int (idx + 1))))"
      by (simp add: max_def nat_diff_distrib) linarith
    with False Cons.IH [of "idx + 1"] show ?thesis
      by (simp add: Let_def)
  qed
qed


lemma for_each_preserves:
  assumes "for_each body xs s = Inr s'"
    and "\<And>i a b. body i a = Inr b \<Longrightarrow> f b = f a"
  shows "f s' = f s"
  using assms(1)
proof (induction xs arbitrary: s)
  case Nil
  then show ?case by simp
next
  case (Cons x xs)
  then obtain a where a: "body x s = Inr a" "for_each body xs a = Inr s'"
    by (auto split: sum.splits)
  with Cons.IH [of a] assms(2) [of x s a] show ?case by simp
qed

lemma for_each_appends:
  assumes "for_each body xs s = Inr s'"
    and "\<And>i a b. body i a = Inr b \<Longrightarrow> f b = f a @ g i"
  shows "f s' = f s @ concat (map g xs)"
  using assms(1)
proof (induction xs arbitrary: s)
  case Nil
  then show ?case by simp
next
  case (Cons x xs)
  then obtain a where a: "body x s = Inr a" "for_each body xs a = Inr s'"
    by (auto split: sum.splits)
  with Cons.IH [of a] assms(2) [of x s a] show ?case by simp
qed

lemma for_each_adds:
  fixes f :: "'s \<Rightarrow> nat"
  assumes "for_each body xs s = Inr s'"
    and "\<And>i a b. body i a = Inr b \<Longrightarrow> f b = f a + c"
  shows "f s' = f s + length xs * c"
  using assms(1)
proof (induction xs arbitrary: s)
  case Nil
  then show ?case by simp
next
  case (Cons x xs)
  then obtain a where a: "body x s = Inr a" "for_each body xs a = Inr s'"
    by (auto split: sum.splits)
  with Cons.IH [of a] assms(2) [of x s a] show ?case by simp
qed

lemma for_each_total:
  assumes "P s"
    and "\<And>i a. P a \<Longrightarrow> \<exists>b. body i a = Inr b \<and> P b"
  shows "\<exists>s'. for_each body xs s = Inr s' \<and> P s'"
  using assms(1)
proof (induction xs arbitrary: s)
  case Nil
  then show ?case by simp
next
  case (Cons x xs)
  from assms(2) [OF Cons.prems] obtain a where a: "body x s = Inr a" "P a"
    by blast
  with Cons.IH [of a] show ?case by simp
qed

lemma sub_epoch_unfold:
  "sub_epoch T L A mu ib epoch k s =
     (let s1 = fold (inner_batch T A mu) (take (max 1 (nat ib)) (epoch_batches L (passes s)))
                 (s\<lparr>train_loss := 0, examples_seen := 0\<rparr>)
      in if examples_seen s1 = 0 then Inl ZeroDivisionError
         else Inr (s1\<lparr>model := snd (calculate_full_gradient_norm T (epoch_batches L (passes s + 1)) (model s1)),
                     passes := passes s + 2,
                     metrics := metrics s @
                       [Inner_record epoch k (train_loss s1 / real (examples_seen s1))
                          (fst (calculate_full_gradient_norm T (epoch_batches L (passes s + 1)) (model s1)))]\<rparr>))"
  by (simp add: sub_epoch_def inner_batches_loop_fold Let_def split: prod.splits)

lemma sub_epoch_InrD:
  assumes "sub_epoch T L A mu ib epoch k s = Inr s'"
  shows "length (model_state_dicts s') =
           length (model_state_dicts s) + min (length (epoch_batches L (passes s))) (max 1 (nat ib))"
    and "weights (target_model s') = weights (target_model s)"
    and "map kind_of (metrics s') = map kind_of (metrics s) @ [Inner_kind epoch k]"
    and "draws s' = draws s"
    and "1 \<le> examples_seen s'"
proof -
  define s1 where "s1 = fold (inner_batch T A mu)
      (take (max 1 (nat ib)) (epoch_batches L (passes s))) (s\<lparr>train_loss := 0, examples_seen := 0\<rparr>)"
  from assms have seen: "examples_seen s1 \<noteq> 0"
    and s': "s' = s1\<lparr>model := snd (calculate_full_gradient_norm T (epoch_batches L (passes s + 1)) (model s1)),
                     passes := passes s + 2,
                     metrics := metrics s @
                       [Inner_record epoch k (train_loss s1 / real (examples_seen s1))
                          (fst (calculate_full_gradient_norm T (epoch_batches L (passes s + 1)) (model s1)))]\<rparr>"
    unfolding sub_epoch_unfold s1_def Let_def by (simp_all split: if_splits)
  show "length (model_state_dicts s') =
           length (model_state_dicts s) + min (length (epoch_batches L (passes s))) (max 1 (nat ib))"
    by (simp add: s' s1_def)
  show "weights (target_model s') = weights (target_model s)"
    by (simp add: s' s1_def)
  show "map kind_of (metrics s') = map kind_of (metrics s) @ [Inner_kind epoch k]"
    by (simp add: s')
  show "draws s' = draws s"
    by (simp add: s' s1_def)
  from seen show "1 \<le> examples_seen s'"
    by (simp add: s')
qed

lemma sub_epoch_total:
  assumes "concat (take (max 1 (nat ib)) (epoch_batches L (passes s))) \<noteq> []"
  shows "\<exists>s'. sub_epoch T L A mu ib epoch k s = Inr s'"
  using assms by (simp add: sub_epoch_unfold Let_def)

lemma wf_loader_batches:
  assumes "wf_loader L" "dataset L \<noteq> []"
  shows "concat (take (max 1 n) (epoch_batches L k)) \<noteq> []"
proof -
  from assms have ne: "epoch_batches L k \<noteq> []"
    by (auto simp: wf_loader_def dest!: spec [of _ k])
  then obtain b bs where bs: "epoch_batches L k = b # bs"
    by (cases "epoch_batches L k") auto
  with assms(1) have "b \<noteq> []"
    by (auto simp: wf_loader_def dest!: spec [of _ k])
  moreover obtain m where "max 1 n = Suc m"
    by (cases "max 1 n") auto
  ultimately show ?thesis using bs by simp
qed

lemma wf_loader_length: "wf_loader L \<Longrightarrow> length (epoch_batches L k) = batch_count L"
  by (simp add: wf_loader_def)

lemma wf_demo_loader: "wf_loader demo_loader"
  by (simp add: wf_loader_def demo_loader_def)

lemma wf_demo_loader3: "wf_loader demo_loader3"
  by (simp add: wf_loader_def demo_loader3_def)

lemma inner_epochs_total:
  assumes "wf_loader L" and "dataset L \<noteq> []"
  shows "\<exists>s'. for_each (sub_epoch T L A mu ib epoch) ks s = Inr s'"
proof -
  have "\<exists>s'. for_each (sub_epoch T L A mu ib epoch) ks s = Inr s' \<and> True"
    by (rule for_each_total) (use sub_epoch_total wf_loader_batches [OF assms] in blast)+
  then show ?thesis by simp
qed

lemma inner_batches_of_None:
  "inner_epoch_fraction A = None \<Longrightarrow> inner_batches_of L A = Inr (int (batch_count L))"
  by (simp add: inner_batches_of_def)

lemma inner_epochs_Inr:
  "inner_batches_of L A = Inr ib \<Longrightarrow>
     inner_epochs T L A mu epoch s =
       for_each (sub_epoch T L A mu ib epoch) [1..num_inner_epochs A] s"
  by (simp add: inner_epochs_def)

lemma inner_epochs_InrE:
  assumes "inner_epochs T L A mu epoch s = Inr s'"
  obtains ib where "inner_batches_of L A = Inr ib"
    and "for_each (sub_epoch T L A mu ib epoch) [1..num_inner_epochs A] s = Inr s'"
  using assms by (auto simp: inner_epochs_def split: sum.splits)

lemma warmup_batch_fields [simp]:
  "metrics (warmup_batch T A b s) = metrics s"
  "passes (warmup_batch T A b s) = passes s"
  "draws (warmup_batch T A b s) = draws s"
  "model (warmup_batch T A b s) = model s"
  by (simp_all add: warmup_batch_def Let_def)

lemma fold_warmup_batch_fields [simp]:
  "metrics (fold (warmup_batch T A) bs s) = metrics s"
  "passes (fold (warmup_batch T A) bs s) = passes s"
  "draws (fold (warmup_batch T A) bs s) = draws s"
  "model (fold (warmup_batch T A) bs s) = model s"
  by (induction bs arbitrary: s; simp)+

lemma warmup_epoch_empty: "dataset L = [] \<Longrightarrow> warmup_epoch T L A e s = Inl ZeroDivisionError"
  by (simp add: warmup_epoch_def Let_def)

lemma warmup_epoch_total: "dataset L \<noteq> [] \<Longrightarrow> \<exists>s'. warmup_epoch T L A e s = Inr s'"
  by (simp add: warmup_epoch_def Let_def split: prod.splits)

lemma warmup_epoch_error: "warmup_epoch T L A e s = Inl err \<Longrightarrow> err = ZeroDivisionError"
  by (simp add: warmup_epoch_def Let_def split: prod.splits if_splits)

lemma warmup_epoch_InrD:
  assumes "warmup_epoch T L A e s = Inr s'"
  shows "map kind_of (metrics s') = map kind_of (metrics s) @ [Warmup_kind e]"
  using assms by (auto simp: warmup_epoch_def Let_def split: prod.splits if_splits)

lemma for_each_error:
  assumes "for_each body xs s = Inl err"
    and "\<And>i a. body i a = Inl err \<Longrightarrow> P"
  shows P
  using assms(1)
proof (induction xs arbitrary: s)
  case Nil
  then show ?case by simp
next
  case (Cons x xs)
  show ?case
  proof (cases "body x s")
    case (Inl e)
    with Cons.prems assms(2) [of x s] show ?thesis by simp
  next
    case (Inr a)
    with Cons.prems Cons.IH [of a] show ?thesis by simp
  qed
qed

lemma warmup_error: "warmup T L A s = Inl err \<Longrightarrow> err = ZeroDivisionError"
  unfolding warmup_def by (erule for_each_error) (rule warmup_epoch_error)

lemma warmup_total:
  assumes "num_warmup_epochs A \<le> 0 \<or> dataset L \<noteq> []"
  shows "\<exists>s'. warmup T L A s = Inr s'"
proof (cases "dataset L = []")
  case True
  with assms have "[1..num_warmup_epochs A] = []" by simp
  then show ?thesis by (simp add: warmup_def)
next
  case False
  have "\<exists>s'. for_each (warmup_epoch T L A) [1..num_warmup_epochs A] s = Inr s' \<and> True"
    by (rule for_each_total) (use warmup_epoch_total [OF False] in auto)
  then show ?thesis by (simp add: warmup_def)
qed

lemma warmup_kinds:
  assumes "warmup T L A s = Inr s'"
  shows "map kind_of (metrics s') = map kind_of (metrics s) @ map Warmup_kind [1..num_warmup_epochs A]"
proof -
  have "map kind_of (metrics s') =
      map kind_of (metrics s) @ concat (map (\<lambda>e. [Warmup_kind e]) [1..num_warmup_epochs A])"
    by (rule for_each_appends [OF assms [unfolded warmup_def]]) (rule warmup_epoch_InrD)
  moreover have "concat (map (\<lambda>e. [Warmup_kind e]) xs) = map Warmup_kind xs" for xs
    by (induction xs) auto
  ultimately show ?thesis by simp
qed

lemma select_empty:
  "model_state_dicts s = [] \<Longrightarrow> select_next_snapshot A randbelow s = Inl IndexError"
  by (simp add: select_next_snapshot_def random_choice_def last_item_def)

lemma snapshot_gradient_fields [simp]:
  "metrics (snd (snapshot_gradient T L s)) = metrics s"
  "draws (snd (snapshot_gradient T L s)) = draws s"
  "weights (target_model (snd (snapshot_gradient T L s))) = weights (target_model s)"
  "model (snd (snapshot_gradient T L s)) = model s"
  "passes (snd (snapshot_gradient T L s)) = passes s + 1"
  by (simp_all add: snapshot_gradient_def split: prod.splits)
     (metis calculate_full_gradient_weights snd_conv)

lemma outer_epoch_unfold:
  "outer_epoch T L A randbelow epoch s =
     (case inner_epochs T L A (fst (snapshot_gradient T L s)) epoch
             (reset_working_model (snd (snapshot_gradient T L s))) of
        Inl e \<Rightarrow> Inl e
      | Inr s3 \<Rightarrow> select_next_snapshot A randbelow s3)"
  by (simp add: outer_epoch_def Let_def split: prod.splits)

lemma outer_epoch_no_inner:
  assumes "num_inner_epochs A \<le> 0" and "inner_batches_of L A = Inr ib"
  shows "outer_epoch T L A randbelow epoch s = Inl IndexError"
proof -
  from assms(1) have "[1..num_inner_epochs A] = []" by simp
  then show ?thesis
    by (simp add: outer_epoch_unfold inner_epochs_Inr [OF assms(2)] select_empty
        reset_working_model_def)
qed

lemma sub_epoch_no_batches:
  "epoch_batches L (passes s) = [] \<Longrightarrow> sub_epoch T L A mu ib epoch k s = Inl ZeroDivisionError"
  by (simp add: sub_epoch_unfold)

lemma outer_epoch_no_batches:
  assumes "1 \<le> num_inner_epochs A" and "\<forall>k. epoch_batches L k = []"
    and "inner_batches_of L A = Inr ib"
  shows "outer_epoch T L A randbelow epoch s = Inl ZeroDivisionError"
proof -
  from assms(1) have "[1..num_inner_epochs A] = 1 # [2..num_inner_epochs A]"
    by (simp add: upto.simps)
  then show ?thesis
    by (simp add: outer_epoch_unfold inner_epochs_Inr [OF assms(3)] sub_epoch_no_batches assms(2))
qed

lemma inner_epochs_count:
  assumes "wf_loader L" and "dataset L \<noteq> []" and "inner_batches_of L A = Inr ib"
  shows "\<exists>s'. inner_epochs T L A mu epoch s = Inr s'
           \<and> length (model_state_dicts s') =
               length (model_state_dicts s) +
               nat (num_inner_epochs A) * min (batch_count L) (max 1 (nat ib))"
proof -
  let ?c = "min (batch_count L) (max 1 (nat ib))"
  from inner_epochs_total [OF assms(1,2)]
  obtain s' where s': "for_each (sub_epoch T L A mu ib epoch) [1..num_inner_epochs A] s = Inr s'"
    by blast
  have "length (model_state_dicts s') =
      length (model_state_dicts s) + length [1..num_inner_epochs A] * ?c"
    by (rule for_each_adds [OF s'])
       (simp add: sub_epoch_InrD(1) wf_loader_length [OF assms(1)])
  with s' show ?thesis by (simp add: inner_epochs_Inr [OF assms(3)])
qed

lemma inner_epochs_InrD:
  assumes "inner_epochs T L A mu epoch s = Inr s'"
  shows "map kind_of (metrics s') = map kind_of (metrics s) @ map (Inner_kind epoch) [1..num_inner_epochs A]"
    and "draws s' = draws s"
    and "weights (target_model s') = weights (target_model s)"
proof -
  from assms obtain ib where
    run: "for_each (sub_epoch T L A mu ib epoch) [1..num_inner_epochs A] s = Inr s'"
    by (rule inner_epochs_InrE)
  have "map kind_of (metrics s') =
      map kind_of (metrics s) @ concat (map (\<lambda>k. [Inner_kind epoch k]) [1..num_inner_epochs A])"
    by (rule for_each_appends [OF run]) (rule sub_epoch_InrD(3))
  moreover have "concat (map (\<lambda>k. [Inner_kind epoch k]) xs) = map (Inner_kind epoch) xs" for xs
    by (induction xs) auto
  ultimately show "map kind_of (metrics s') =
      map kind_of (metrics s) @ map (Inner_kind epoch) [1..num_inner_epochs A]"
    by simp
  show "draws s' = draws s"
    by (rule for_each_preserves [OF run]) (rule sub_epoch_InrD(4))
  show "weights (target_model s') = weights (target_model s)"
    by (rule for_each_preserves [OF run]) (rule sub_epoch_InrD(2))
qed

lemma select_next_snapshot_InrD:
  assumes "select_next_snapshot A randbelow s = Inr s'"
  shows "metrics s' = metrics s"
    and "model_state_dicts s \<noteq> []"
    and "choose_random_iterate A \<Longrightarrow>
           randbelow (draws s) (length (model_state_dicts s)) < length (model_state_dicts s)
           \<and> weights (target_model s') =
               model_state_dicts s ! randbelow (draws s) (length (model_state_dicts s))"
    and "\<not> choose_random_iterate A \<Longrightarrow> weights (target_model s') = last (model_state_dicts s)"
  using assms
  by (auto simp: select_next_snapshot_def random_choice_def last_item_def Let_def
      split: if_splits sum.splits)

lemma select_next_snapshot_total:
  assumes "model_state_dicts s \<noteq> []"
    and "choose_random_iterate A \<longrightarrow> (\<forall>k n. 0 < n \<longrightarrow> randbelow k n < n)"
  shows "\<exists>s'. select_next_snapshot A randbelow s = Inr s'"
  using assms
  by (auto simp: select_next_snapshot_def random_choice_def last_item_def Let_def)

lemma outer_epoch_InrD:
  assumes "outer_epoch T L A randbelow epoch s = Inr s'"
  shows "map kind_of (metrics s') = map kind_of (metrics s) @ map (Inner_kind epoch) [1..num_inner_epochs A]"
proof -
  from assms obtain s3 where
    3: "inner_epochs T L A (fst (snapshot_gradient T L s)) epoch
          (reset_working_model (snd (snapshot_gradient T L s))) = Inr s3"
    and 4: "select_next_snapshot A randbelow s3 = Inr s'"
    by (auto simp: outer_epoch_unfold split: sum.splits)
  from inner_epochs_InrD(1) [OF 3] select_next_snapshot_InrD(1) [OF 4]
  show ?thesis by (simp add: reset_working_model_def)
qed

lemma outer_epoch_total:
  assumes "wf_loader L" and "dataset L \<noteq> []" and "1 \<le> num_inner_epochs A"
    and "choose_random_iterate A \<longrightarrow> (\<forall>k n. 0 < n \<longrightarrow> randbelow k n < n)"
    and "inner_batches_of L A = Inr ib"
  shows "\<exists>s'. outer_epoch T L A randbelow epoch s = Inr s'"
proof -
  from inner_epochs_count [OF assms(1,2,5), of T "fst (snapshot_gradient T L s)" epoch
      "reset_working_model (snd (snapshot_gradient T L s))"]
  obtain s3 where
    3: "inner_epochs T L A (fst (snapshot_gradient T L s)) epoch
          (reset_working_model (snd (snapshot_gradient T L s))) = Inr s3"
    and len: "length (model_state_dicts s3) =
      nat (num_inner_epochs A) * min (batch_count L) (max 1 (nat ib))"
    by (auto simp: reset_working_model_def)
  from assms(1,2) have "epoch_batches L 0 \<noteq> []"
    using wf_loader_batches [OF assms(1,2), of 0 0] by auto
  then have "1 \<le> batch_count L"
    using wf_loader_length [OF assms(1), of 0] by (cases "epoch_batches L 0") auto
  with assms(3) len have "0 < length (model_state_dicts s3)"
    by simp
  then have "model_state_dicts s3 \<noteq> []" by simp
  from select_next_snapshot_total [OF this assms(4)] 3 show ?thesis
    by (simp add: outer_epoch_unfold)
qed

lemma outer_epochs_kinds:
  assumes "for_each (outer_epoch T L A randbelow) es s = Inr s'"
  shows "map kind_of (metrics s') =
     map kind_of (metrics s) @ concat (map (\<lambda>epoch. map (Inner_kind epoch) [1..num_inner_epochs A]) es)"
  by (rule for_each_appends [OF assms]) (rule outer_epoch_InrD)

lemma train_completes:
  assumes "wf_loader L" and "dataset L \<noteq> []"
    and "1 \<le> num_outer_epochs A \<longrightarrow>
           1 \<le> num_inner_epochs A \<and> (\<exists>ib. inner_batches_of L A = Inr ib)"
    and "choose_random_iterate A \<longrightarrow> (\<forall>k n. 0 < n \<longrightarrow> randbelow k n < n)"
  shows "\<exists>ms. train T L A randbelow = Inr ms"
proof -
  from warmup_total [of A L T "init_state T"] assms(2)
  obtain s where w: "warmup T L A (init_state T) = Inr s" by blast
  have "\<exists>s'. outer_epochs T L A randbelow s = Inr s'"
  proof (cases "1 \<le> num_outer_epochs A")
    case True
    with assms(3) obtain ib where inner: "1 \<le> num_inner_epochs A"
      and ib: "inner_batches_of L A = Inr ib" by blast
    have "\<exists>s'. for_each (outer_epoch T L A randbelow) [1..num_outer_epochs A] s = Inr s' \<and> True"
      by (rule for_each_total) (use outer_epoch_total [OF assms(1,2) inner assms(4) ib] in auto)
    then show ?thesis by (simp add: outer_epochs_def)
  next
    case False
    then have "[1..num_outer_epochs A] = []" by simp
    then show ?thesis by (simp add: outer_epochs_def)
  qed
  with w show ?thesis by (auto simp: train_def train_run_def)
qed

lemma demo_candidates:
  assumes "num_inner_epochs A = 2" and "inner_epoch_fraction A = None"
    and "learning_rate A = 1 / 10" and "weight_decay A = 0"
  shows "map_sum id model_state_dicts
     (inner_epochs demo_trainer demo_loader A
        (fst (snapshot_gradient demo_trainer demo_loader (init_state demo_trainer))) 1
        (reset_working_model (snd (snapshot_gradient demo_trainer demo_loader (init_state demo_trainer)))))
     = Inr [[9 / 5], [8 / 5]]"
  by (simp add: assms demo_defs train_defs)

lemma length_tsub [simp]: "length (tsub xs ys) = min (length xs) (length ys)"
  by (simp add: tsub_def)

lemma length_tadd [simp]: "length (tadd xs ys) = min (length xs) (length ys)"
  by (simp add: tadd_def)

lemma length_tscale [simp]: "length (tscale c xs) = length xs"
  by (simp add: tscale_def)

lemma length_zeros [simp]: "length (zeros n) = n"
  by (simp add: zeros_def)

lemma nth_tsub: "i < length xs \<Longrightarrow> i < length ys \<Longrightarrow> tsub xs ys ! i = xs ! i - ys ! i"
  by (simp add: tsub_def)

lemma nth_tadd: "i < length xs \<Longrightarrow> i < length ys \<Longrightarrow> tadd xs ys ! i = xs ! i + ys ! i"
  by (simp add: tadd_def)

lemma nth_tscale: "i < length xs \<Longrightarrow> tscale c xs ! i = c * xs ! i"
  by (simp add: tscale_def)

lemma nth_zeros: "i < n \<Longrightarrow> zeros n ! i = 0"
  by (simp add: zeros_def)

lemma tadd_zeros: "length xs = n \<Longrightarrow> tadd (zeros n) xs = xs"
  by (rule nth_equalityI) (simp_all add: nth_tadd nth_zeros)

lemma dot_update:
  "i < length w \<Longrightarrow> i < length c \<Longrightarrow> dot c (w[i := t]) = dot c w + c ! i * (t - w ! i)"
proof (induction c arbitrary: w i)
  case Nil
  then show ?case by simp
next
  case (Cons x c)
  then obtain y w' where w: "w = y # w'" by (cases w) auto
  show ?case
  proof (cases i)
    case 0
    with w show ?thesis by (simp add: dot_def algebra_simps)
  next
    case (Suc j)
    with Cons.prems w have "j < length w'" "j < length c" by simp_all
    from Cons.IH [OF this] Suc w show ?thesis by (simp add: dot_def)
  qed
qed

lemma aux_loss_derivative:
  assumes "i < length w" and "i < length c"
    and "((\<lambda>t. loss_at T b (w[i := t])) has_real_derivative d) (at (w ! i))"
  shows "((\<lambda>t. item T (w[i := t]) (Sub (Loss b) (Dot_weights c))) has_real_derivative (d - c ! i))
           (at (w ! i))"
proof -
  have "((\<lambda>t. loss_at T b (w[i := t]) - (dot c w + c ! i * (t - w ! i)))
           has_real_derivative (d - c ! i)) (at (w ! i))"
    by (rule derivative_eq_intros assms(3) | simp)+
  then show ?thesis
    by (simp add: dot_update [OF assms(1,2)])
qed

lemma fold_tadd:
  assumes "\<forall>x \<in> set xs. length x = n" and "length acc = n"
  shows "length (fold (\<lambda>x acc. tadd acc x) xs acc) = n
       \<and> (\<forall>i<n. fold (\<lambda>x acc. tadd acc x) xs acc ! i = acc ! i + (\<Sum>x\<leftarrow>xs. x ! i))"
  using assms
proof (induction xs arbitrary: acc)
  case Nil
  then show ?case by simp
next
  case (Cons x xs)
  then have x: "length x = n" and xs: "\<forall>x \<in> set xs. length x = n" by simp_all
  with Cons.prems have len: "length (tadd acc x) = n" by simp
  from Cons.IH [OF xs len] x Cons.prems(2) show ?case
    by (simp add: nth_tadd)
qed

lemma tsum_nth:
  assumes "\<forall>x \<in> set xs. length x = n"
  shows "length (tsum n xs) = n" and "i < n \<Longrightarrow> tsum n xs ! i = (\<Sum>x\<leftarrow>xs. x ! i)"
  using fold_tadd [OF assms, of "zeros n"] by (simp_all add: tsum_def nth_zeros)

lemma full_gradient_sums_fold:
  assumes "\<forall>b \<in> set bs. length (grad_at T b w) = n" and "length acc = n"
  shows "\<exists>acc'. fold (\<lambda>b (acc, n). (tadd acc (tscale (real (length b)) (grad_at T b w)), n + length b))
             bs (acc, m) = (acc', m + length (concat bs))
           \<and> length acc' = n
           \<and> (\<forall>i<n. acc' ! i = acc ! i + (\<Sum>b\<leftarrow>bs. real (length b) * grad_at T b w ! i))"
  using assms
proof (induction bs arbitrary: acc m)
  case Nil
  then show ?case by simp
next
  case (Cons b bs)
  then have b: "length (grad_at T b w) = n" and bs: "\<forall>b \<in> set bs. length (grad_at T b w) = n"
    by simp_all
  with Cons.prems have len: "length (tadd acc (tscale (real (length b)) (grad_at T b w))) = n"
    by simp
  from Cons.IH [OF bs len, of "m + length b"] b Cons.prems(2) show ?case
    by (auto simp: nth_tadd nth_tscale add.assoc)
qed

lemma sum_list_concat_map:
  fixes f :: "'a \<Rightarrow> real"
  shows "(\<Sum>b\<leftarrow>bs. \<Sum>e\<leftarrow>b. f e) = (\<Sum>e\<leftarrow>concat bs. f e)"
  by (induction bs) auto

lemma sum_list_mset_cong:
  fixes f :: "'a \<Rightarrow> real"
  assumes "mset xs = mset ys"
  shows "(\<Sum>x\<leftarrow>xs. f x) = (\<Sum>y\<leftarrow>ys. f y)"
proof -
  have "(\<Sum>x\<leftarrow>xs. f x) = sum_mset (image_mset f (mset xs))"
    by (metis mset_map sum_mset_sum_list)
  also have "\<dots> = (\<Sum>y\<leftarrow>ys. f y)"
    unfolding assms by (metis mset_map sum_mset_sum_list)
  finally show ?thesis .
qed

lemma full_gradient_is_average:
  assumes batches: "[] \<notin> set bs" "mset (concat bs) = mset D" and "D \<noteq> []"
    and shape: "\<forall>e \<in> set D. length (grad_at T [e] w) = length w"
    and mean: "\<forall>b \<in> set bs. grad_at T b w = average_example_gradient T w b"
  shows "full_gradient_sums T w bs =
           (tscale (real (length D)) (average_example_gradient T w D), length D)"
proof -
  let ?n = "length w"
  let ?g = "\<lambda>e. grad_at T [e] w"
  have in_D: "set b \<subseteq> set D" if "b \<in> set bs" for b
    using that batches(2) by (metis UN_I mset_eq_setD set_concat subsetI)
  have shape_b: "\<forall>x \<in> set (map ?g b). length x = ?n" if "b \<in> set bs" for b
    using in_D [OF that] shape by auto
  have shape_D: "\<forall>x \<in> set (map ?g D). length x = ?n"
    using shape by auto
  have len_b: "length (grad_at T b w) = ?n" if "b \<in> set bs" for b
    using that mean tsum_nth(1) [OF shape_b [OF that]]
    by (simp add: average_example_gradient_def)
  have nth_b: "real (length b) * grad_at T b w ! i = (\<Sum>e\<leftarrow>b. ?g e ! i)"
    if "b \<in> set bs" "i < ?n" for b i
  proof -
    from that(1) batches(1) have "b \<noteq> []" by auto
    then have "real (length b) \<noteq> 0" by simp
    moreover have "grad_at T b w ! i = (1 / real (length b)) * (\<Sum>x\<leftarrow>map ?g b. x ! i)"
      using that mean tsum_nth [OF shape_b [OF that(1)]]
      by (simp add: average_example_gradient_def nth_tscale)
    ultimately show ?thesis by (simp add: comp_def)
  qed
  from full_gradient_sums_fold [of bs T w ?n "zeros ?n" 0] len_b
  obtain acc where fold: "full_gradient_sums T w bs = (acc, length (concat bs))"
    and len: "length acc = ?n"
    and nth: "\<forall>i<?n. acc ! i = (\<Sum>b\<leftarrow>bs. real (length b) * grad_at T b w ! i)"
    by (auto simp: full_gradient_sums_def nth_zeros)
  have size: "length (concat bs) = length D"
    using batches(2) by (metis size_mset)
  have "acc = tscale (real (length D)) (average_example_gradient T w D)"
  proof (rule nth_equalityI)
    show "length acc = length (tscale (real (length D)) (average_example_gradient T w D))"
      using len tsum_nth(1) [OF shape_D] by (simp add: average_example_gradient_def)
  next
    fix i
    assume "i < length acc"
    with len have i: "i < ?n" by simp
    have "acc ! i = (\<Sum>b\<leftarrow>bs. real (length b) * grad_at T b w ! i)"
      using nth i by simp
    also have "\<dots> = (\<Sum>b\<leftarrow>bs. \<Sum>e\<leftarrow>b. ?g e ! i)"
      by (rule arg_cong [where f = sum_list], rule map_cong) (simp_all add: nth_b i)
    also have "\<dots> = (\<Sum>e\<leftarrow>concat bs. ?g e ! i)"
      by (rule sum_list_concat_map)
    also have "\<dots> = (\<Sum>e\<leftarrow>D. ?g e ! i)"
      by (rule sum_list_mset_cong [OF batches(2)])
    also have "\<dots> = tscale (real (length D)) (average_example_gradient T w D) ! i"
      using i assms(3) tsum_nth [OF shape_D]
      by (simp add: average_example_gradient_def nth_tscale comp_def)
    finally show "acc ! i = tscale (real (length D)) (average_example_gradient T w D) ! i" .
  qed
  with fold size show ?thesis by simp
qed

lemma tscale_tscale: "tscale a (tscale b xs) = tscale (a * b) xs"
  by (simp add: tscale_def)

lemma tscale_one: "tscale 1 xs = xs"
  unfolding tscale_def by (induction xs) auto

lemma concat_replicate_single: "concat (replicate n [x]) = replicate n x"
  by (induction n) auto

lemma wf_ten_batch_loader: "wf_loader ten_batch_loader"
  by (simp add: wf_loader_def ten_batch_loader_def concat_replicate_single)

lemma inner_batches_one_tenth: "inner_batches_of demo_loader3 fraction_args = Inr 0"
  by (simp add: inner_batches_of_def fraction_args_def demo_args_def demo_loader3_def
      one_tenth_def float_defs Let_def)

lemma inner_batches_seven_tenths: "inner_batches_of ten_batch_loader rounding_args = Inr 7"
  by (simp add: inner_batches_of_def rounding_args_def demo_args_def ten_batch_loader_def
      seven_tenths_def float_defs Let_def)

text \<open>
  The float product of line 73 as Python computes it: \<^verbatim>\<open>int(100 * 0.29)\<close> is 28, since the
  product rounds to \<^verbatim>\<open>28.999999999999996\<close>; an infinite fraction raises OverflowError and
  a zero count times infinity, being not-a-number, raises ValueError.
\<close>

lemma int_times_float_examples:
  "int_times_float 100 (Finite 5224175567749775 (- 54)) = Inr (Finite 8162774324609023 (- 48))"
  "py_int (Finite 8162774324609023 (- 48)) = Inr 28"
  "int_times_float 5 (Infinity False) = Inr (Infinity False)"
  "py_int (Infinity False) = Inl OverflowError"
  "int_times_float 0 (Infinity False) = Inr NaN"
  "py_int NaN = Inl ValueError"
  by (simp_all add: float_defs Let_def)

lemma inner_epochs_Inl:
  "inner_batches_of L A = Inl err \<Longrightarrow> inner_epochs T L A mu epoch s = Inl err"
  by (simp add: inner_epochs_def)

lemma infinite_fraction_run:
  "train demo_trainer demo_loader infinite_fraction_args demo_randbelow = Inl OverflowError"
  by (simp add: demo_defs train_defs float_defs)

lemma wf_shuffling_loader: "wf_loader shuffling_loader"
  by (simp add: wf_loader_def shuffling_loader_def)

section \<open>Claims\<close>

text \<open>
  C10. On a loader with a non-empty dataset every inner sub-epoch completes, processes at least
  one batch and appends at least one candidate state, whatever the value of
  \<^verbatim>\<open>inner_batches\<close> (zero and negative values included): the truncation check runs after
  the batch has been processed. The sub-epoch appends
  \<open>min (len(train_loader)) (max 1 inner_batches)\<close> states.
\<close>

theorem sub_epoch_processes_a_batch:
  assumes "wf_loader L" and "dataset L \<noteq> []"
  shows "\<exists>s'. sub_epoch T L A mu inner_batches epoch k s = Inr s'
           \<and> length (model_state_dicts s') =
               length (model_state_dicts s) + min (batch_count L) (max 1 (nat inner_batches))
           \<and> length (model_state_dicts s) + 1 \<le> length (model_state_dicts s')
           \<and> 1 \<le> examples_seen s'"
proof -
  from wf_loader_batches [OF assms] sub_epoch_total
  obtain s' where s': "sub_epoch T L A mu inner_batches epoch k s = Inr s'"
    by blast
  from assms have "epoch_batches L (passes s) \<noteq> []"
    using wf_loader_batches [OF assms, of 0 "passes s"] by auto
  then have "1 \<le> batch_count L"
    using wf_loader_length [OF assms(1), of "passes s"] by (cases "epoch_batches L (passes s)") auto
  then have "1 \<le> min (batch_count L) (max 1 (nat inner_batches))"
    by simp
  with sub_epoch_InrD(1,5) [OF s'] wf_loader_length [OF assms(1)] s'
  show ?thesis by auto
qed

theorem sub_epoch_processes_a_batch_witness:
  "wf_loader demo_loader3 \<and> dataset demo_loader3 \<noteq> []
   \<and> inner_batches_of demo_loader3 fraction_args = Inr 0
   \<and> (\<exists>s'. sub_epoch demo_trainer demo_loader3 fraction_args [3] 0 1 1
               (init_state demo_trainer) = Inr s'
          \<and> length (model_state_dicts s') = 1 \<and> 1 \<le> examples_seen s')"
proof -
  have d: "dataset demo_loader3 \<noteq> []" by (simp add: demo_loader3_def)
  have b: "batch_count demo_loader3 = 3" by (simp add: demo_loader3_def)
  have m: "model_state_dicts (init_state demo_trainer) = []" by (simp add: init_state_def)
  from sub_epoch_processes_a_batch [OF wf_demo_loader3 d, of demo_trainer fraction_args "[3]"
      0 1 1 "init_state demo_trainer"]
  show ?thesis
    using wf_demo_loader3 d inner_batches_one_tenth by (auto simp: b m)
qed

text \<open>
  C2, as amended. Let \<^verbatim>\<open>inner_batches\<close> be what lines 71-73 compute without raising:
  \<^verbatim>\<open>int(len(train_loader) * inner_epoch_fraction)\<close> in float arithmetic when the fraction is
  given, and \<^verbatim>\<open>len(train_loader)\<close> otherwise. On a loader with a non-empty dataset the inner
  sub-epochs of an outer epoch then complete and leave
  \<open>num_inner_epochs * min (len(train_loader)) (max 1 inner_batches)\<close> candidate states;
  without a fraction that is \<open>num_inner_epochs * len(train_loader)\<close>.
\<close>

theorem inner_epochs_candidates:
  assumes "wf_loader L" and "dataset L \<noteq> []"
    and "inner_batches_of L A = Inr inner_batches"
  shows "\<exists>s'. inner_epochs T L A mu epoch (reset_working_model s) = Inr s'
           \<and> length (model_state_dicts s') =
               nat (num_inner_epochs A) * min (batch_count L) (max 1 (nat inner_batches))
           \<and> (inner_epoch_fraction A = None \<longrightarrow>
                length (model_state_dicts s') = nat (num_inner_epochs A) * batch_count L)"
proof -
  let ?c = "min (batch_count L) (max 1 (nat inner_batches))"
  from inner_epochs_count [OF assms, of T mu epoch "reset_working_model s"]
  obtain s' where s': "inner_epochs T L A mu epoch (reset_working_model s) = Inr s'"
    and len: "length (model_state_dicts s') = nat (num_inner_epochs A) * ?c"
    by (auto simp: reset_working_model_def)
  have "inner_epoch_fraction A = None \<Longrightarrow> ?c = batch_count L"
    using assms(3) by (auto simp: inner_batches_of_def min_def max_def)
  with s' len show ?thesis by auto
qed

text \<open>
  Ten batches and the fraction \<^verbatim>\<open>0.7\<close>: the float product \<^verbatim>\<open>10 * 0.7\<close> rounds to \<^verbatim>\<open>7.0\<close>,
  so each of the two sub-epochs processes seven batches.
\<close>

theorem inner_epochs_candidates_witness:
  "wf_loader ten_batch_loader \<and> dataset ten_batch_loader \<noteq> []
   \<and> is_double seven_tenths
   \<and> inner_batches_of ten_batch_loader rounding_args = Inr 7
   \<and> (\<exists>s'. inner_epochs demo_trainer ten_batch_loader rounding_args [1] 1
               (reset_working_model (init_state demo_trainer)) = Inr s'
          \<and> length (model_state_dicts s') = 14)"
proof -
  have d: "dataset ten_batch_loader \<noteq> []" by (simp add: ten_batch_loader_def)
  have f: "is_double seven_tenths" by (simp add: is_double_def seven_tenths_def)
  have b: "batch_count ten_batch_loader = 10" by (simp add: ten_batch_loader_def)
  have n: "num_inner_epochs rounding_args = 2" "inner_epoch_fraction rounding_args \<noteq> None"
    by (simp_all add: rounding_args_def demo_args_def)
  from inner_epochs_candidates [OF wf_ten_batch_loader d inner_batches_seven_tenths,
      of demo_trainer "[1]" 1 "init_state demo_trainer"]
  show ?thesis
    using wf_ten_batch_loader d f inner_batches_seven_tenths by (auto simp: b n)
qed

text \<open>
  The claim as stated fails: with three batches and the fraction \<^verbatim>\<open>0.1\<close>, the float product
  is \<^verbatim>\<open>0.30000000000000004\<close>, \<^verbatim>\<open>inner_batches\<close> is 0 and the claimed count is \<open>2 * 0 = 0\<close>,
  but each of the two sub-epochs processes one batch.
\<close>

theorem candidates_count_counterexample:
  "is_double one_tenth
   \<and> int_times_float 3 one_tenth = Inr (Finite 5404319552844596 (- 54))
   \<and> inner_batches_of demo_loader3 fraction_args = Inr 0
   \<and> num_inner_epochs fraction_args = 2
   \<and> map_sum id (int \<circ> length \<circ> model_state_dicts)
       (train_run demo_trainer demo_loader3 fraction_args demo_randbelow) = Inr 2"
  by (simp add: is_double_def demo_defs train_defs float_defs)

text \<open>
  C5. Within an outer epoch the target model's parameter values do not change from the
  computation of \<^verbatim>\<open>mu\<close> to the end of the inner sub-epochs, where the next snapshot is
  selected: neither the computation of \<^verbatim>\<open>mu\<close>, nor the reset of the working model, nor
  any inner batch changes them. The inner loop only clears and accumulates the target
  model's gradient, and the optimizer steps the working model alone.
\<close>

theorem target_model_frozen:
  assumes "snapshot_gradient T L s = (mu, s1)"
    and "inner_epochs T L A mu epoch (reset_working_model s1) = Inr s3"
  shows "weights (target_model s1) = weights (target_model s)
       \<and> weights (target_model (reset_working_model s1)) = weights (target_model s)
       \<and> weights (target_model (inner_batch T A mu b s0)) = weights (target_model s0)
       \<and> weights (target_model s3) = weights (target_model s)"
proof -
  from assms(1) have 1: "weights (target_model s1) = weights (target_model s)"
    by (auto simp: snapshot_gradient_def split: prod.splits)
       (metis calculate_full_gradient_weights snd_conv)
  have "weights (target_model s3) = weights (target_model (reset_working_model s1))"
    by (rule inner_epochs_InrD(3) [OF assms(2)])
  with 1 show ?thesis by (simp add: reset_working_model_def)
qed

theorem target_model_frozen_witness:
  "\<exists>mu s1 s3. snapshot_gradient demo_trainer demo_loader (init_state demo_trainer) = (mu, s1)
      \<and> inner_epochs demo_trainer demo_loader demo_args mu 1 (reset_working_model s1) = Inr s3
      \<and> weights (target_model s3) = [2] \<and> weights (model s3) = [9 / 5]"
proof -
  obtain mu s1 where 1: "snapshot_gradient demo_trainer demo_loader (init_state demo_trainer) = (mu, s1)"
    by force
  then have mu: "mu = [2]" and s1: "model s1 = new_module [2]"
    by (auto simp: demo_defs train_defs)
  have d: "dataset demo_loader \<noteq> []"
    by (simp add: demo_loader_def)
  obtain s3 where 3: "inner_epochs demo_trainer demo_loader demo_args mu 1 (reset_working_model s1) = Inr s3"
    using inner_epochs_count [OF wf_demo_loader d inner_batches_of_None] 
    by (metis demo_args_def train_args.select_convs(4))
  have 0: "weights (target_model (init_state demo_trainer)) = [2]"
    by (simp add: init_state_def demo_trainer_def new_module_def)
  from 1 have t1: "weights (target_model s1) = [2]"
    by (auto simp: demo_defs train_defs)
  from 3 have "weights (model s3) = [9 / 5]"
    by (auto simp: mu s1 t1 demo_defs train_defs split: if_splits)
  with target_model_frozen [OF 1 3] 0 1 3 show ?thesis
    by auto
qed

text \<open>
  C8. With an empty dataset and at least one warmup epoch, \<^verbatim>\<open>train\<close> fails with a
  ZeroDivisionError: the average warmup loss of line 46 divides by the number of examples
  of the dataset, and nothing in \<^verbatim>\<open>train\<close> guards against a dataset without examples.
\<close>

theorem warmup_empty_dataset:
  assumes "dataset L = []" and "1 \<le> num_warmup_epochs A"
  shows "train T L A randbelow = Inl ZeroDivisionError"
proof -
  from assms(2) have "[1..num_warmup_epochs A] = 1 # [2..num_warmup_epochs A]"
    by (simp add: upto.simps)
  then have "warmup T L A (init_state T) = Inl ZeroDivisionError"
    by (simp add: warmup_def warmup_epoch_empty [OF assms(1)])
  then show ?thesis by (simp add: train_def train_run_def)
qed

theorem warmup_empty_dataset_witness:
  "dataset empty_loader = [] \<and> 1 \<le> num_warmup_epochs demo_args
   \<and> train demo_trainer empty_loader demo_args demo_randbelow = Inl ZeroDivisionError"
proof -
  have 1: "dataset empty_loader = []" by (simp add: empty_loader_def)
  have 2: "1 \<le> num_warmup_epochs demo_args" by (simp add: demo_args_def)
  from warmup_empty_dataset [OF 1 2] 1 2 show ?thesis by simp
qed

text \<open>
  C9, as amended. Let there be at least one outer epoch, and let the number of batches of a
  sub-epoch be computed without raising (lines 71-73: no fraction, or a fraction whose float
  product with \<^verbatim>\<open>len(train_loader)\<close> is finite). Without inner sub-epochs, and when the
  warmup phase completes (no warmup epoch, or a dataset with examples), the run fails with an
  IndexError at the selection of the next snapshot, the candidate sequence being empty. With
  at least one inner sub-epoch on a loader that yields no batches the run fails with a
  ZeroDivisionError instead: at the latest at the average loss of the first sub-epoch
  (line 114), before any snapshot is selected. No check of the configuration comes first.
\<close>

theorem empty_candidates_failure:
  assumes "1 \<le> num_outer_epochs A" and "inner_batches_of L A = Inr inner_batches"
  shows "(num_inner_epochs A \<le> 0 \<and> (num_warmup_epochs A \<le> 0 \<or> dataset L \<noteq> [])
            \<longrightarrow> train T L A randbelow = Inl IndexError)
       \<and> (1 \<le> num_inner_epochs A \<and> (\<forall>k. epoch_batches L k = [])
            \<longrightarrow> train T L A randbelow = Inl ZeroDivisionError)"
proof (intro conjI impI)
  from assms have outer: "[1..num_outer_epochs A] = 1 # [2..num_outer_epochs A]"
    by (simp add: upto.simps)
  {
    assume a: "num_inner_epochs A \<le> 0 \<and> (num_warmup_epochs A \<le> 0 \<or> dataset L \<noteq> [])"
    then obtain s where "warmup T L A (init_state T) = Inr s"
      using warmup_total by blast
    with a show "train T L A randbelow = Inl IndexError"
      by (simp add: train_def train_run_def outer_epochs_def outer
          outer_epoch_no_inner [OF _ assms(2)])
  }
  {
    assume a: "1 \<le> num_inner_epochs A \<and> (\<forall>k. epoch_batches L k = [])"
    show "train T L A randbelow = Inl ZeroDivisionError"
    proof (cases "warmup T L A (init_state T)")
      case (Inl err)
      with warmup_error [OF Inl] show ?thesis
        by (simp add: train_def train_run_def)
    next
      case (Inr s)
      with a show ?thesis
        by (simp add: train_def train_run_def outer_epochs_def outer
            outer_epoch_no_batches [OF _ _ assms(2)])
    qed
  }
qed

theorem empty_candidates_failure_witness:
  "1 \<le> num_outer_epochs no_inner_args \<and> num_inner_epochs no_inner_args \<le> 0
   \<and> dataset demo_loader \<noteq> []
   \<and> train demo_trainer demo_loader no_inner_args demo_randbelow = Inl IndexError
   \<and> 1 \<le> num_outer_epochs no_warmup_args \<and> 1 \<le> num_inner_epochs no_warmup_args
   \<and> epoch_batches empty_loader = (\<lambda>k. [])
   \<and> train demo_trainer empty_loader no_warmup_args demo_randbelow = Inl ZeroDivisionError"
proof -
  have 1: "1 \<le> num_outer_epochs no_inner_args" "num_inner_epochs no_inner_args \<le> 0"
    "dataset demo_loader \<noteq> []"
    by (simp_all add: no_inner_args_def demo_args_def demo_loader_def)
  have 2: "1 \<le> num_outer_epochs no_warmup_args" "1 \<le> num_inner_epochs no_warmup_args"
    "epoch_batches empty_loader = (\<lambda>k. [])"
    by (simp_all add: no_warmup_args_def demo_args_def empty_loader_def)
  have 3: "inner_batches_of demo_loader no_inner_args = Inr 1"
    "inner_batches_of empty_loader no_warmup_args = Inr 0"
    by (simp_all add: inner_batches_of_def no_inner_args_def no_warmup_args_def demo_args_def
        demo_loader_def empty_loader_def)
  from empty_candidates_failure [OF 1(1) 3(1), of demo_trainer demo_randbelow]
    empty_candidates_failure [OF 2(1) 3(2), of demo_trainer demo_randbelow] 1 2
  show ?thesis by simp
qed

text \<open>
  The claim as stated fails on a loader without batches: with one outer and one inner epoch
  and no warmup, the run ends in the ZeroDivisionError of line 114, not in the IndexError of
  the snapshot selection.
\<close>

theorem empty_loader_counterexample:
  "train demo_trainer empty_loader no_warmup_args demo_randbelow = Inl ZeroDivisionError
   \<and> train demo_trainer empty_loader no_warmup_args demo_randbelow \<noteq> Inl IndexError"
  by (simp add: no_warmup_args_def demo_defs train_defs)

text \<open>
  C6. The metrics that \<^verbatim>\<open>train\<close> returns are one warmup record per warmup epoch, in order,
  followed by one inner record per pair of an outer epoch and an inner sub-epoch, in the order
  of the loops; without outer epochs they are the warmup records alone. On a well-formed loader
  with a non-empty dataset the run does return, provided every outer epoch has an inner
  sub-epoch, the number of batches of a sub-epoch is computed without raising (lines 71-73)
  and the random draws stay below their bound.
\<close>

theorem metrics_sequence:
  shows "(\<forall>ms. train T L A randbelow = Inr ms \<longrightarrow>
            map kind_of ms = expected_kinds A
            \<and> (num_outer_epochs A \<le> 0 \<longrightarrow> map kind_of ms = map Warmup_kind [1..num_warmup_epochs A]))
       \<and> (wf_loader L \<and> dataset L \<noteq> []
            \<and> (1 \<le> num_outer_epochs A \<longrightarrow>
                  1 \<le> num_inner_epochs A \<and> (\<exists>ib. inner_batches_of L A = Inr ib))
            \<and> (choose_random_iterate A \<longrightarrow> (\<forall>k n. 0 < n \<longrightarrow> randbelow k n < n))
          \<longrightarrow> (\<exists>ms. train T L A randbelow = Inr ms))"
proof (intro conjI allI impI)
  fix ms
  assume run: "train T L A randbelow = Inr ms"
  then obtain s s' where w: "warmup T L A (init_state T) = Inr s"
    and o: "outer_epochs T L A randbelow s = Inr s'" and ms: "ms = metrics s'"
    by (auto simp: train_def train_run_def split: sum.splits)
  from warmup_kinds [OF w] have "map kind_of (metrics s) = map Warmup_kind [1..num_warmup_epochs A]"
    by (simp add: init_state_def)
  with outer_epochs_kinds [OF o [unfolded outer_epochs_def]] ms
  show kinds: "map kind_of ms = expected_kinds A"
    by (simp add: expected_kinds_def)
  assume "num_outer_epochs A \<le> 0"
  then have "[1..num_outer_epochs A] = []" by simp
  with kinds show "map kind_of ms = map Warmup_kind [1..num_warmup_epochs A]"
    by (simp add: expected_kinds_def)
next
  assume "wf_loader L \<and> dataset L \<noteq> []
      \<and> (1 \<le> num_outer_epochs A \<longrightarrow>
            1 \<le> num_inner_epochs A \<and> (\<exists>ib. inner_batches_of L A = Inr ib))
      \<and> (choose_random_iterate A \<longrightarrow> (\<forall>k n. 0 < n \<longrightarrow> randbelow k n < n))"
  then show "\<exists>ms. train T L A randbelow = Inr ms"
    using train_completes by blast
qed

theorem metrics_sequence_witness:
  "(\<exists>ms. train demo_trainer demo_loader two_by_two_args demo_randbelow = Inr ms
      \<and> map kind_of ms =
          [Warmup_kind 1, Warmup_kind 2, Inner_kind 1 1, Inner_kind 1 2, Inner_kind 2 1, Inner_kind 2 2])
   \<and> (\<exists>ms. train demo_trainer demo_loader warmup_only_args demo_randbelow = Inr ms
      \<and> map kind_of ms = [Warmup_kind 1, Warmup_kind 2])"
proof -
  have d: "dataset demo_loader \<noteq> []" by (simp add: demo_loader_def)
  have a: "1 \<le> num_outer_epochs two_by_two_args \<longrightarrow>
       1 \<le> num_inner_epochs two_by_two_args
       \<and> (\<exists>ib. inner_batches_of demo_loader two_by_two_args = Inr ib)"
    "\<not> choose_random_iterate two_by_two_args"
    "1 \<le> num_outer_epochs warmup_only_args \<longrightarrow>
       1 \<le> num_inner_epochs warmup_only_args
       \<and> (\<exists>ib. inner_batches_of demo_loader warmup_only_args = Inr ib)"
    "\<not> choose_random_iterate warmup_only_args" "num_outer_epochs warmup_only_args \<le> 0"
    by (simp_all add: two_by_two_args_def warmup_only_args_def demo_args_def
        inner_batches_of_def)
  have e: "expected_kinds two_by_two_args =
     [Warmup_kind 1, Warmup_kind 2, Inner_kind 1 1, Inner_kind 1 2, Inner_kind 2 1, Inner_kind 2 2]"
    "map Warmup_kind [1..num_warmup_epochs warmup_only_args] = [Warmup_kind 1, Warmup_kind 2]"
    by (simp_all add: expected_kinds_def two_by_two_args_def warmup_only_args_def demo_args_def upto.simps)
  from metrics_sequence [of demo_trainer demo_loader two_by_two_args demo_randbelow]
    metrics_sequence [of demo_trainer demo_loader warmup_only_args demo_randbelow]
    wf_demo_loader d a e
  show ?thesis by (metis (no_types, lifting))
qed

text \<open>
  C3. When an outer epoch completes, the state loaded into the target model for the next
  outer epoch is taken from the candidate states of all the inner sub-epochs of that outer
  epoch, and there is at least one: without \<^verbatim>\<open>choose_random_iterate\<close> it is the last
  candidate; with it, it is the candidate at the position the random generator draws below
  the length of the whole sequence, so a uniform draw gives a uniform choice.
\<close>

theorem next_snapshot_selection:
  assumes "outer_epoch T L A randbelow epoch s = Inr s'"
  shows "\<exists>s3. inner_epochs T L A (fst (snapshot_gradient T L s)) epoch
                 (reset_working_model (snd (snapshot_gradient T L s))) = Inr s3
           \<and> model_state_dicts s3 \<noteq> []
           \<and> (\<not> choose_random_iterate A \<longrightarrow>
                state_dict (target_model s') = last (model_state_dicts s3))
           \<and> (choose_random_iterate A \<longrightarrow>
                randbelow (draws s3) (length (model_state_dicts s3)) < length (model_state_dicts s3)
                \<and> state_dict (target_model s') =
                    model_state_dicts s3 ! randbelow (draws s3) (length (model_state_dicts s3)))"
proof -
  from assms obtain s3 where
    3: "inner_epochs T L A (fst (snapshot_gradient T L s)) epoch
          (reset_working_model (snd (snapshot_gradient T L s))) = Inr s3"
    and 4: "select_next_snapshot A randbelow s3 = Inr s'"
    by (auto simp: outer_epoch_unfold split: sum.splits)
  from select_next_snapshot_InrD(2-4) [OF 4] 3 show ?thesis
    by (auto simp: state_dict_def)
qed

theorem next_snapshot_selection_witness:
  "(\<exists>s'. outer_epoch demo_trainer demo_loader last_iterate_args demo_randbelow 1
            (init_state demo_trainer) = Inr s'
        \<and> state_dict (target_model s') = [8 / 5])
   \<and> (\<exists>s'. outer_epoch demo_trainer demo_loader random_iterate_args demo_randbelow 1
            (init_state demo_trainer) = Inr s'
        \<and> state_dict (target_model s') = [9 / 5])"
proof -
  have d: "dataset demo_loader \<noteq> []" by (simp add: demo_loader_def)
  have r: "\<forall>k n. 0 < n \<longrightarrow> demo_randbelow k n < n" by (simp add: demo_randbelow_def)
  have a: "num_inner_epochs last_iterate_args = 2" "inner_epoch_fraction last_iterate_args = None"
    "learning_rate last_iterate_args = 1 / 10" "weight_decay last_iterate_args = 0"
    "\<not> choose_random_iterate last_iterate_args"
    by (simp_all add: last_iterate_args_def demo_args_def)
  have b: "num_inner_epochs random_iterate_args = 2" "inner_epoch_fraction random_iterate_args = None"
    "learning_rate random_iterate_args = 1 / 10" "weight_decay random_iterate_args = 0"
    "choose_random_iterate random_iterate_args"
    by (simp_all add: random_iterate_args_def demo_args_def)
  obtain s1 where 1: "outer_epoch demo_trainer demo_loader last_iterate_args demo_randbelow 1
            (init_state demo_trainer) = Inr s1"
    using outer_epoch_total [OF wf_demo_loader d _ _ inner_batches_of_None [OF a(2)],
        of demo_randbelow] a
    by (metis one_le_numeral)
  obtain s2 where 2: "outer_epoch demo_trainer demo_loader random_iterate_args demo_randbelow 1
            (init_state demo_trainer) = Inr s2"
    using outer_epoch_total [OF wf_demo_loader d _ _ inner_batches_of_None [OF b(2)],
        of demo_randbelow] b r
    by (metis one_le_numeral)
  from next_snapshot_selection [OF 1] demo_candidates [OF a(1-4)] a(5)
  have "state_dict (target_model s1) = [8 / 5]"
    by auto
  moreover from next_snapshot_selection [OF 2] demo_candidates [OF b(1-4)] b(5)
  have "state_dict (target_model s2) = [9 / 5]"
    by (auto simp: demo_randbelow_def)
  ultimately show ?thesis using 1 2 by simp
qed

text \<open>
  C4. An outer epoch runs its inner sub-epochs, and then the selection, from the state in
  which the working model has just been reset: there the working model's parameter values
  equal the target model's, which are still those the outer epoch started with. (Values
  are immutable here, so the copy shares nothing with the target model.)
\<close>

theorem reset_working_model_equal:
  "outer_epoch T L A randbelow epoch s =
     (case inner_epochs T L A (fst (snapshot_gradient T L s)) epoch
             (reset_working_model (snd (snapshot_gradient T L s))) of
        Inl e \<Rightarrow> Inl e
      | Inr s3 \<Rightarrow> select_next_snapshot A randbelow s3)
   \<and> state_dict (model (reset_working_model (snd (snapshot_gradient T L s)))) =
       state_dict (target_model (reset_working_model (snd (snapshot_gradient T L s))))
   \<and> state_dict (target_model (reset_working_model (snd (snapshot_gradient T L s)))) =
       state_dict (target_model s)"
  by (simp add: outer_epoch_unfold reset_working_model_def state_dict_def)

theorem reset_working_model_equal_witness:
  "state_dict (model (snd (snapshot_gradient demo_trainer demo_loader (init_state demo_trainer)))) = [2]
   \<and> state_dict (model (reset_working_model
        (snd (snapshot_gradient demo_trainer demo_loader
           ((init_state demo_trainer)\<lparr>target_model := new_module [7]\<rparr>))))) = [7]"
  using reset_working_model_equal [of demo_trainer demo_loader demo_args demo_randbelow 1
      "(init_state demo_trainer)\<lparr>target_model := new_module [7]\<rparr>"]
  by (simp add: state_dict_def init_state_def new_module_def demo_trainer_def)

text \<open>
  C1. In every inner batch the auxiliary loss is the working model's loss minus the dot
  product of the detached \<open>g_snapshot - mu\<close> with the working model's parameter vector,
  and its backward pass leaves \<open>grad L_working - (g_snapshot - mu)\<close> as the working model's
  gradient, \<open>g_snapshot\<close> being the target model's gradient on the batch. That is the
  gradient of the auxiliary loss: in every coordinate where the engine's gradient of the
  working loss is its partial derivative, the partial derivative of the auxiliary loss is the
  coordinate of \<open>grad L_working - (g_snapshot - mu)\<close>. All tensors have the models' shape.
\<close>

theorem aux_loss_gradient:
  assumes "w = weights (model s)"
    and "g_snapshot = grad_at T b (weights (target_model s))"
    and "length w = n" and "length (weights (target_model s)) = n" and "length mu = n"
    and "length (grad_at T b w) = n" and "length g_snapshot = n"
  shows "grad (model (inner_batch T A mu b s)) = tsub (grad_at T b w) (tsub g_snapshot mu)
       \<and> (\<forall>i<n. ((\<lambda>t. loss_at T b (w[i := t])) has_real_derivative grad_at T b w ! i) (at (w ! i))
            \<longrightarrow> ((\<lambda>t. item T (w[i := t]) (aux_loss b g_snapshot mu))
                   has_real_derivative (tsub (grad_at T b w) (tsub g_snapshot mu)) ! i) (at (w ! i)))"
proof (intro conjI allI impI)
  have "grad (backward T (Loss b) (zero_grad (target_model s))) = g_snapshot"
    using assms(2,4,7) by (simp add: backward_def zero_grad_def tadd_zeros)
  then have "grad (model (inner_batch T A mu b s)) =
      tadd (zeros n) (tsub (grad_at T b w) (tsub g_snapshot mu))"
    using assms(1,3) by (simp add: inner_batch_def Let_def backward_def zero_grad_def aux_loss_def)
  then show "grad (model (inner_batch T A mu b s)) = tsub (grad_at T b w) (tsub g_snapshot mu)"
    using assms(5-7) by (simp add: tadd_zeros)
next
  fix i
  assume i: "i < n"
    and d: "((\<lambda>t. loss_at T b (w[i := t])) has_real_derivative grad_at T b w ! i) (at (w ! i))"
  from i assms(3,5,7) have "i < length w" "i < length (tsub g_snapshot mu)"
    by simp_all
  from aux_loss_derivative [OF this d] i assms(5-7)
  show "((\<lambda>t. item T (w[i := t]) (aux_loss b g_snapshot mu))
          has_real_derivative (tsub (grad_at T b w) (tsub g_snapshot mu)) ! i) (at (w ! i))"
    by (simp add: aux_loss_def nth_tsub)
qed

theorem aux_loss_gradient_witness:
  "grad (model (inner_batch demo_trainer demo_args [1] [1, 3] (init_state demo_trainer))) = [1]
   \<and> ((\<lambda>t. item demo_trainer [t] (aux_loss [1, 3] [2] [1])) has_real_derivative 1) (at 2)"
proof -
  have d: "((\<lambda>t. loss_at demo_trainer [1, 3] ([2][0 := t])) has_real_derivative
             grad_at demo_trainer [1, 3] [2] ! 0) (at ([2] ! 0))"
    by (auto simp: demo_trainer_def intro!: derivative_eq_intros)
  have "[2] = weights (model (init_state demo_trainer))"
    and "[2] = grad_at demo_trainer [1, 3] (weights (target_model (init_state demo_trainer)))"
    and "length [2::real] = 1" and "length (weights (target_model (init_state demo_trainer))) = 1"
    and "length [1::real] = 1" and "length (grad_at demo_trainer [1, 3] [2]) = 1"
    by (simp_all add: init_state_def new_module_def demo_trainer_def)
  from aux_loss_gradient [OF this \<open>length [2::real] = 1\<close>, of demo_args] d
  show ?thesis
    by (simp add: tsub_def demo_trainer_def)
qed

text \<open>
  C7. On a well-formed loader, and for a loss whose gradient on a batch is the average of its
  examples' gradients, the full gradient of a module is the average of the per-example
  gradients over the whole dataset, whichever batches the iteration over the loader yields;
  the running example count is the size of the dataset; and a second computation, on
  the module as the first one left it, gives the same gradient vector.
\<close>

theorem full_gradient_deterministic:
  assumes "wf_loader L" and "dataset L \<noteq> []"
    and "\<forall>e \<in> set (dataset L). length (grad_at T [e] (weights m)) = length (weights m)"
    and "\<forall>k. \<forall>b \<in> set (epoch_batches L k).
           grad_at T b (weights m) = average_example_gradient T (weights m) b"
  shows "fst (calculate_full_gradient T (epoch_batches L k) m) =
           average_example_gradient T (weights m) (dataset L)
       \<and> snd (full_gradient_sums T (weights m) (epoch_batches L k)) = length (dataset L)
       \<and> fst (calculate_full_gradient T (epoch_batches L k')
               (snd (calculate_full_gradient T (epoch_batches L k) m))) =
           fst (calculate_full_gradient T (epoch_batches L k) m)"
proof -
  have sums: "full_gradient_sums T (weights m) (epoch_batches L j) =
      (tscale (real (length (dataset L))) (average_example_gradient T (weights m) (dataset L)),
       length (dataset L))" for j
    using assms by (intro full_gradient_is_average) (simp_all add: wf_loader_def)
  have res: "fst (calculate_full_gradient T (epoch_batches L j) m') =
      average_example_gradient T (weights m) (dataset L)" if "weights m' = weights m" for j m'
    using assms(2) that
    by (simp add: calculate_full_gradient_def Let_def sums tscale_tscale tscale_one)
  from res [of m k] res [of "snd (calculate_full_gradient T (epoch_batches L k) m)" k'] sums [of k]
  show ?thesis by simp
qed

theorem full_gradient_deterministic_witness:
  "fst (calculate_full_gradient demo_trainer (epoch_batches shuffling_loader 0) (new_module [2])) = [3]
   \<and> fst (calculate_full_gradient demo_trainer (epoch_batches shuffling_loader 1)
       (snd (calculate_full_gradient demo_trainer (epoch_batches shuffling_loader 0) (new_module [2]))))
     = [3]
   \<and> snd (full_gradient_sums demo_trainer [2] (epoch_batches shuffling_loader 0)) = 3"
proof -
  have d: "dataset shuffling_loader \<noteq> []"
    by (simp add: shuffling_loader_def)
  have shape: "\<forall>e \<in> set (dataset shuffling_loader).
      length (grad_at demo_trainer [e] (weights (new_module [2]))) = length (weights (new_module [2]))"
    by (simp add: demo_trainer_def new_module_def)
  have mean: "\<forall>k. \<forall>b \<in> set (epoch_batches shuffling_loader k).
      grad_at demo_trainer b (weights (new_module [2])) =
      average_example_gradient demo_trainer (weights (new_module [2])) b"
    by (simp add: shuffling_loader_def demo_trainer_def new_module_def average_example_gradient_def
        tsum_def tscale_def tadd_def zeros_def)
  have avg: "average_example_gradient demo_trainer (weights (new_module [2])) (dataset shuffling_loader) = [3]"
    by (simp add: shuffling_loader_def demo_trainer_def new_module_def average_example_gradient_def
        tsum_def tscale_def tadd_def zeros_def)
  from full_gradient_deterministic [OF wf_shuffling_loader d shape mean, of 0 1] avg
  show ?thesis
    by (simp add: shuffling_loader_def new_module_def)
qed

end
